theory Spec2Isabelle
  imports Main "HOL-Library.Word"
begin

section \<open>JavaScript values\<close>

text \<open>
  The scanner passes dynamically typed values around: an error object or \<open>null\<close>, an
  options object \<open>{client: client}\<close>, a boolean flag. They are modelled by one datatype.
  \<open>JClient n\<close> is the handle of the database client of transaction \<open>n\<close>; numbers are
  the integers the scanner uses (heights, indices).
\<close>

datatype jsval =
    JUndefined
  | JNull
  | JBool bool
  | JNum int
  | JStr string
  | JClient nat
  | JObj "(string \<times> jsval) list"

text \<open>\<open>!x\<close> negates the truthiness of \<open>x\<close>: every object is truthy.\<close>

fun js_truthy :: "jsval \<Rightarrow> bool" where
  "js_truthy JUndefined = False"
| "js_truthy JNull = False"
| "js_truthy (JBool b) = b"
| "js_truthy (JNum n) = (n \<noteq> 0)"
| "js_truthy (JStr s) = (s \<noteq> [])"
| "js_truthy (JClient c) = True"
| "js_truthy (JObj fs) = True"

text \<open>
  \<open>_.get(object, key)\<close> and \<open>object.key\<close> on an optional object: \<open>undefined\<close> when the
  object is \<open>null\<close> or \<open>undefined\<close> or has no such property. The keys read in this
  program are \<open>code\<close>, \<open>message\<close> and \<open>client\<close>, which no primitive value has.
\<close>

fun js_get :: "jsval \<Rightarrow> string \<Rightarrow> jsval" where
  "js_get (JObj fs) k = (case map_of fs k of Some v \<Rightarrow> v | None \<Rightarrow> JUndefined)"
| "js_get v k = JUndefined"

definition digit_char :: "nat \<Rightarrow> char" where
  "digit_char n = char_of (48 + n)"

fun show_nat :: "nat \<Rightarrow> string" where
  "show_nat n = (if n < 10 then [digit_char n] else show_nat (n div 10) @ [digit_char (n mod 10)])"

definition show_int :: "int \<Rightarrow> string" where
  "show_int i = (if i < 0 then CHR ''-'' # show_nat (nat (- i)) else show_nat (nat i))"

text \<open>The abstract operation ToString, applied by \<open>escape\<close> to its argument.\<close>

fun js_toString :: "jsval \<Rightarrow> string" where
  "js_toString JUndefined = ''undefined''"
| "js_toString JNull = ''null''"
| "js_toString (JBool b) = (if b then ''true'' else ''false'')"
| "js_toString (JNum n) = show_int n"
| "js_toString (JStr s) = s"
| "js_toString (JClient c) = ''[object Object]''"
| "js_toString (JObj fs) = ''[object Object]''"

text \<open>
  The global function \<open>escape\<close>: letters, digits and \<open>@*_+-./\<close> are kept, every other
  character below 256 becomes \<open>%XX\<close> with two upper-case hexadecimal digits.
\<close>

definition hex_digit :: "nat \<Rightarrow> char" where
  "hex_digit n = (if n < 10 then char_of (48 + n) else char_of (55 + n))"

definition escape_kept :: "char \<Rightarrow> bool" where
  "escape_kept c \<longleftrightarrow>
     c \<in> set ''ABCDEFGHIJKLMNOPQRSTUVWXYZabcdefghijklmnopqrstuvwxyz0123456789@*_+-./''"

definition escape_char :: "char \<Rightarrow> string" where
  "escape_char c =
     (if escape_kept c then [c]
      else [CHR ''%'', hex_digit (of_char c div 16), hex_digit (of_char c mod 16)])"

definition escape :: "jsval \<Rightarrow> string" where
  "escape v = concat (map escape_char (js_toString v))"

section \<open>Service: the notification facade\<close>

text \<open>
  A notification handed to the message bus: the channel, the payload and the options
  object it was published with.
\<close>

record event =
  ev_channel :: string
  ev_payload :: jsval
  ev_opts :: jsval

text \<open>
  Modelled from the spec: \<open>messages.notify(channel, payload, opts)\<close> belongs to the
  message bus, which is not part of the scanner sources. The spec (external interfaces):
  when \<open>opts.client\<close> is supplied, delivery is deferred until the client's transaction
  commits; otherwise the event is delivered at once. The model records the call; the
  client a notification is bound to is \<open>ev_client\<close>.
\<close>

definition notify :: "string \<Rightarrow> jsval \<Rightarrow> jsval \<Rightarrow> event" where
  "notify channel payload opts =
     \<lparr>ev_channel = channel, ev_payload = payload, ev_opts = opts\<rparr>"

definition ev_client :: "event \<Rightarrow> nat option" where
  "ev_client e = (case js_get (ev_opts e) ''client'' of JClient c \<Rightarrow> Some c | _ \<Rightarrow> None)"

definition sendTxResponse :: "jsval \<Rightarrow> jsval \<Rightarrow> jsval \<Rightarrow> event" where
  "sendTxResponse ident err opts =
     notify ''sendtxresponse''
       (JObj [(''id'', ident),
              (''status'', JStr (if err = JNull then ''success'' else ''fail'')),
              (''code'', js_get err ''code''),
              (''message'', JStr (escape (js_get err ''message'')))])
       opts"

definition broadcastBlock :: "string \<Rightarrow> int \<Rightarrow> jsval \<Rightarrow> event" where
  "broadcastBlock hash height opts =
     notify ''broadcastblock'' (JObj [(''hash'', JStr hash), (''height'', JNum height)]) opts"

definition broadcastTx :: "string \<Rightarrow> jsval \<Rightarrow> jsval \<Rightarrow> jsval \<Rightarrow> event" where
  "broadcastTx txId blockHash blockHeight opts =
     notify ''broadcasttx''
       (JObj [(''txId'', JStr txId), (''blockHash'', blockHash), (''blockHeight'', blockHeight)])
       opts"

definition broadcastAddress :: "string \<Rightarrow> string \<Rightarrow> jsval \<Rightarrow> jsval \<Rightarrow> jsval \<Rightarrow> event" where
  "broadcastAddress address txId blockHash blockHeight opts =
     notify ''broadcastaddress''
       (JObj [(''address'', JStr address), (''txId'', JStr txId),
              (''blockHash'', blockHash), (''blockHeight'', blockHeight)])
       opts"

text \<open>
  \<open>addTx (txId, isConfirmed, opts)\<close> and \<open>removeTx (txId, isConfirmed, opts)\<close> take three
  parameters; a caller that passes two leaves \<open>opts\<close> undefined.
\<close>

definition addTx :: "string \<Rightarrow> jsval \<Rightarrow> jsval \<Rightarrow> event" where
  "addTx txId isConfirmed opts =
     notify ''addtx''
       (JObj [(''txId'', JStr txId), (''unconfirmed'', JBool (\<not> js_truthy isConfirmed))])
       opts"

definition removeTx :: "string \<Rightarrow> jsval \<Rightarrow> jsval \<Rightarrow> event" where
  "removeTx txId isConfirmed opts =
     notify ''removetx''
       (JObj [(''txId'', JStr txId), (''unconfirmed'', JBool (\<not> js_truthy isConfirmed))])
       opts"

definition addBlock :: "string \<Rightarrow> jsval \<Rightarrow> event" where
  "addBlock hash opts = notify ''addblock'' (JObj [(''hash'', JStr hash)]) opts"

definition removeBlock :: "string \<Rightarrow> jsval \<Rightarrow> event" where
  "removeBlock hash opts = notify ''removeblock'' (JObj [(''hash'', JStr hash)]) opts"

section \<open>Helpers of lodash\<close>

text \<open>
  \<open>_.uniq\<close> keeps the first occurrence of every element, \<open>_.difference\<close> keeps the
  elements of the first array that are not in the second, \<open>_.without\<close> removes every
  occurrence of a value and \<open>_.union\<close> is the concatenation without duplicates. An
  array argument that is \<open>undefined\<close> (here \<open>None\<close>) counts as the empty array.
\<close>

definition uniq :: "'a list \<Rightarrow> 'a list" where
  "uniq xs = rev (remdups (rev xs))"

definition difference :: "'a list \<Rightarrow> 'a list \<Rightarrow> 'a list" where
  "difference xs ys = filter (\<lambda>x. x \<notin> set ys) xs"

definition array_of :: "'a list option \<Rightarrow> 'a list" where
  "array_of a = (case a of None \<Rightarrow> [] | Some xs \<Rightarrow> xs)"

definition without :: "'a list option \<Rightarrow> 'a \<Rightarrow> 'a list" where
  "without a v = filter (\<lambda>x. x \<noteq> v) (array_of a)"

definition union_arrays :: "'a list option \<Rightarrow> 'a list \<Rightarrow> 'a list" where
  "union_arrays a ys = uniq (array_of a @ ys)"

section \<open>The registry of orphaned transactions\<close>

text \<open>
  \<open>this._orphanedTx = {deps: {}, orphans: {}}\<close>: two objects used as dictionaries from
  a txid to an array of txids. A key that was never set or was deleted reads
  \<open>undefined\<close>.
\<close>

record orphanedTx =
  deps :: "string \<rightharpoonup> string list"
  orphans :: "string \<rightharpoonup> string list"

definition orphanedTx_init :: orphanedTx where
  "orphanedTx_init = \<lparr>deps = Map.empty, orphans = Map.empty\<rparr>"

text \<open>
  The loop of \<open>_importOrphaned\<close> over the children of \<open>txid\<close>: a child with other
  parents left keeps them, a child with none left is deleted from \<open>deps\<close> and its import
  is scheduled (\<open>setImmediate\<close>); the scheduled txids are collected in order.
\<close>

fun importOrphaned_loop ::
  "string \<Rightarrow> string list \<Rightarrow> (string \<rightharpoonup> string list) \<Rightarrow> string list
     \<Rightarrow> (string \<rightharpoonup> string list) \<times> string list" where
  "importOrphaned_loop txid [] d sched = (d, sched)"
| "importOrphaned_loop txid (orphaned # rest) d sched =
     (let ds = without (d orphaned) txid in
      if length ds > 0 then importOrphaned_loop txid rest (d(orphaned \<mapsto> ds)) sched
      else importOrphaned_loop txid rest (d(orphaned := None)) (sched @ [orphaned]))"

definition importOrphaned :: "string \<Rightarrow> orphanedTx \<Rightarrow> orphanedTx \<times> string list" where
  "importOrphaned txid reg =
     (case orphans reg txid of
        None \<Rightarrow> (reg, [])
      | Some os \<Rightarrow>
          (let (d, sched) = importOrphaned_loop txid os (deps reg) []
           in (\<lparr>deps = d, orphans = (orphans reg)(txid := None)\<rparr>, sched)))"

text \<open>
  The registration inside \<open>_importUnconfirmedTx\<close>, run when some parents are missing:
  \<open>deps[txid] = deps\<close>, then \<open>orphans[dep] = _.union(orphans[dep], [txid])\<close> for each.
\<close>

definition markOrphaned :: "string \<Rightarrow> string list \<Rightarrow> orphanedTx \<Rightarrow> orphanedTx" where
  "markOrphaned txid ds reg =
     \<lparr>deps = (deps reg)(txid \<mapsto> ds),
      orphans = fold (\<lambda>dep m. m(dep \<mapsto> union_arrays (m dep) [txid])) ds (orphans reg)\<rparr>"

text \<open>The symmetry of the two dictionaries: \<open>c\<close> is in \<open>orphans[p]\<close> iff \<open>p\<close> is in \<open>deps[c]\<close>.\<close>

definition symmetric :: "orphanedTx \<Rightarrow> bool" where
  "symmetric reg \<longleftrightarrow>
     (\<forall>c p. c \<in> set (array_of (orphans reg p)) \<longleftrightarrow> p \<in> set (array_of (deps reg c)))"

section \<open>Transactions, blocks and the store\<close>

text \<open>
  A bitcore transaction as the scanner reads it: \<open>tx.id\<close>, \<open>tx.toString()\<close> (the raw
  transaction in hex), the inputs with \<open>prevTxId\<close> (in hex) and \<open>outputIndex\<close>, the outputs
  with \<open>satoshis\<close> and \<open>script.toHex()\<close>. The field \<open>addresses\<close> of an output holds what
  \<open>_getAddresses(output)\<close> returns for it: the result of the library \<open>script2addresses\<close>.
\<close>

record tx_input =
  prevTxId :: string
  outputIndex :: "32 word"

record tx_output =
  satoshis :: int
  script :: string
  addresses :: "string list"

record tx =
  tx_id :: string
  tx_raw :: string
  tx_inputs :: "tx_input list"
  tx_outputs :: "tx_output list"

record block =
  blk_hash :: string
  blk_header :: string
  blk_transactions :: "tx list"

definition ZERO_HASH :: string where
  "ZERO_HASH = replicate 64 CHR ''0''"

text \<open>The rows of the three tables of the scanner; a nullable column is an option.\<close>

record block_row =
  b_height :: int
  b_hash :: string
  b_header :: string
  b_txids :: string

record tx_row =
  t_txid :: string
  t_height :: "int option"
  t_tx :: string

record history_row =
  h_address :: string
  h_txid :: string
  h_index :: nat
  h_value :: int
  h_script :: string
  h_height :: "int option"
  h_input_txid :: "string option"
  h_input_height :: "int option"

record store =
  blocks :: "block_row list"
  transactions :: "tx_row list"
  history :: "history_row list"

datatype error =
    DbError string
  | DuplicateKey string
  | TypeError
  | OtherError string

text \<open>
  A database client inside \<open>executeTransaction\<close>: its handle, the tables as the open
  transaction sees them, and the notifications published so far. \<open>c_fault\<close> names the
  statements that the database rejects (a lost connection, a failing statement): the
  statement of path \<open>q\<close> fails when \<open>c_fault c q\<close> holds. A failure carries the
  notifications published before it.
\<close>

record 's client =
  c_id :: nat
  c_store :: 's
  c_sent :: "event list"
  c_fault :: "string \<Rightarrow> bool"

type_synonym failure = "error \<times> event list"

type_synonym ('s, 'r) action = "'s client \<Rightarrow> failure + ('r \<times> 's client)"

text \<open>
  \<open>await\<close> in sequence: the second action runs on the result of the first, and a
  rejection ends the enclosing async function.
\<close>

definition andThen :: "('s, 'a) action \<Rightarrow> ('a \<Rightarrow> ('s, 'b) action) \<Rightarrow> ('s, 'b) action" where
  "andThen m f c = (case m c of Inl e \<Rightarrow> Inl e | Inr (r, c') \<Rightarrow> f r c')"

definition resolve :: "'r \<Rightarrow> ('s, 'r) action" where
  "resolve r c = Inr (r, c)"

fun forEach :: "('a \<Rightarrow> ('s, unit) action) \<Rightarrow> 'a list \<Rightarrow> ('s, unit) action" where
  "forEach f [] c = Inr ((), c)"
| "forEach f (x # xs) c = (case f x c of Inl e \<Rightarrow> Inl e | Inr (u, c') \<Rightarrow> forEach f xs c')"

text \<open>
  \<open>client.queryAsync(SQL.path, params)\<close>: the statement of that path, with its
  parameters already applied, runs on the tables of the client.
\<close>

definition queryAsync :: "string \<Rightarrow> ('s \<Rightarrow> error + ('r \<times> 's)) \<Rightarrow> ('s, 'r) action" where
  "queryAsync q stmt c =
     (if c_fault c q then Inl (DbError q, c_sent c)
      else case stmt (c_store c) of
             Inl e \<Rightarrow> Inl (e, c_sent c)
           | Inr (r, s) \<Rightarrow> Inr (r, c\<lparr>c_store := s\<rparr>))"

text \<open>A call of the service: the notification is handed to the bus.\<close>

definition publish :: "event \<Rightarrow> ('s, unit) action" where
  "publish e c = Inr ((), c\<lparr>c_sent := c_sent c @ [e]\<rparr>)"

text \<open>The options object \<open>{client: client}\<close>.\<close>

definition opts_client :: "'s client \<Rightarrow> jsval" where
  "opts_client c = JObj [(''client'', JClient (c_id c))]"

text \<open>
  Modelled from the spec: \<open>storage.executeTransaction(body)\<close> belongs to the storage
  wrapper, which is not part of the scanner sources. The spec: the body receives a
  transactional client; the transaction commits on success and rolls back on throw; a
  notification published with the client is delivered iff the transaction commits.
  The result is what the body returned or threw, the tables afterwards, and the
  notifications delivered.
\<close>

definition executeTransaction ::
  "nat \<Rightarrow> (string \<Rightarrow> bool) \<Rightarrow> ('s, 'r) action \<Rightarrow> 's \<Rightarrow> (error + 'r) \<times> 's \<times> event list" where
  "executeTransaction n flt body s =
     (case body \<lparr>c_id = n, c_store = s, c_sent = [], c_fault = flt\<rparr> of
        Inr (r, c) \<Rightarrow> (Inr r, c_store c, c_sent c)
      | Inl (e, sent) \<Rightarrow> (Inl e, s, filter (\<lambda>ev. ev_client ev \<noteq> Some n) sent))"

text \<open>
  Modelled from the spec: \<open>storage.executeQuery(sql, params)\<close>, one statement outside
  any transaction (storage wrapper, not part of the scanner sources).
\<close>

definition executeQuery ::
  "(string \<Rightarrow> bool) \<Rightarrow> string \<Rightarrow> ('s \<Rightarrow> error + ('r \<times> 's)) \<Rightarrow> 's \<Rightarrow> error + ('r \<times> 's)" where
  "executeQuery flt q stmt s = (if flt q then Inl (DbError q) else stmt s)"

subsection \<open>The statements of the scanner\<close>

text \<open>
  A binary parameter is passed as the two characters backslash and x followed by the
  hexadecimal digits: \<open>hex_arg\<close> builds that string and
  \<open>bytea\<close> is the value the database reads from it, held in the tables in hex.
\<close>

definition hex_arg :: "string \<Rightarrow> string" where
  "hex_arg h = CHR 0x5C # CHR ''x'' # h"

definition bytea :: "string \<Rightarrow> string" where
  "bytea p = (if take 2 p = [CHR 0x5C, CHR ''x''] then drop 2 p else p)"

text \<open>
  The texts of the SQL statements (the module \<open>sql\<close> of the scanner) and the schema of
  the tables are not part of the sources read here. Every statement below is modelled
  from the spec (data model, the algorithms of the importers, the rollback and the
  mempool reconciliation); the keys of the tables are those of the spec's data model,
  and an insert that repeats a key is rejected by the database.
\<close>

type_synonym ('s, 'r) statement = "'s \<Rightarrow> error + ('r \<times> 's)"

text \<open>Modelled from the spec: \<open>SQL.select.transactions.exists\<close> is missing; it counts the
  transaction rows with the given txid.\<close>

definition select_transactions_exists :: "string \<Rightarrow> (store, nat) statement" where
  "select_transactions_exists p s =
     Inr (length (filter (\<lambda>r. t_txid r = bytea p) (transactions s)), s)"

text \<open>Modelled from the spec: \<open>SQL.select.transactions.existsMany\<close> is missing; it returns
  the txids, among those given, that exist as transaction rows.\<close>

definition select_transactions_existsMany :: "string list \<Rightarrow> (store, string list) statement" where
  "select_transactions_existsMany ps s =
     Inr (map t_txid (filter (\<lambda>r. t_txid r \<in> set (map bytea ps)) (transactions s)), s)"

text \<open>Modelled from the spec: \<open>SQL.select.transactions.unconfirmed\<close> is missing; it returns
  the txids of the transaction rows whose height is null.\<close>

definition select_transactions_unconfirmed :: "(store, string list) statement" where
  "select_transactions_unconfirmed s =
     Inr (map t_txid (filter (\<lambda>r. t_height r = None) (transactions s)), s)"

text \<open>Modelled from the spec: \<open>SQL.insert.transactions.unconfirmed\<close> is missing; it inserts
  a transaction row with a null height (key: txid).\<close>

definition insert_transactions_unconfirmed :: "string \<Rightarrow> string \<Rightarrow> (store, unit) statement" where
  "insert_transactions_unconfirmed txid raw s =
     (if bytea txid \<in> set (map t_txid (transactions s)) then Inl (DuplicateKey ''transactions'')
      else Inr ((), s\<lparr>transactions := transactions s @
                        [\<lparr>t_txid = bytea txid, t_height = None, t_tx = bytea raw\<rparr>]\<rparr>))"

text \<open>Modelled from the spec: \<open>SQL.insert.transactions.confirmed\<close> is missing; it inserts
  a transaction row with the given height (key: txid).\<close>

definition insert_transactions_confirmed ::
  "string \<Rightarrow> int \<Rightarrow> string \<Rightarrow> (store, unit) statement" where
  "insert_transactions_confirmed txid height raw s =
     (if bytea txid \<in> set (map t_txid (transactions s)) then Inl (DuplicateKey ''transactions'')
      else Inr ((), s\<lparr>transactions := transactions s @
                        [\<lparr>t_txid = bytea txid, t_height = Some height, t_tx = bytea raw\<rparr>]\<rparr>))"

text \<open>Modelled from the spec: \<open>SQL.update.transactions.makeConfirmed\<close> is missing; it sets
  the height of the transaction row with the given txid.\<close>

definition update_transactions_makeConfirmed :: "int \<Rightarrow> string \<Rightarrow> (store, unit) statement" where
  "update_transactions_makeConfirmed height txid s =
     Inr ((), s\<lparr>transactions :=
                  map (\<lambda>r. if t_txid r = bytea txid then r\<lparr>t_height := Some height\<rparr> else r)
                    (transactions s)\<rparr>)"

definition history_key :: "history_row \<Rightarrow> string \<times> string \<times> nat" where
  "history_key r = (h_address r, h_txid r, h_index r)"

text \<open>Modelled from the spec: \<open>SQL.insert.history.unconfirmedOutput\<close> is missing; it
  inserts the history row of an output with null height and null input fields
  (key: address, txid, output index).\<close>

definition insert_history_unconfirmedOutput ::
  "string \<Rightarrow> string \<Rightarrow> nat \<Rightarrow> int \<Rightarrow> string \<Rightarrow> (store, unit) statement" where
  "insert_history_unconfirmedOutput address txid index val scr s =
     (if (address, bytea txid, index) \<in> set (map history_key (history s))
      then Inl (DuplicateKey ''history'')
      else Inr ((), s\<lparr>history := history s @
                        [\<lparr>h_address = address, h_txid = bytea txid, h_index = index,
                          h_value = val, h_script = bytea scr, h_height = None,
                          h_input_txid = None, h_input_height = None\<rparr>]\<rparr>))"

text \<open>Modelled from the spec: \<open>SQL.insert.history.confirmedOutput\<close> is missing; it inserts
  the history row of an output with the given height and null input fields
  (key: address, txid, output index).\<close>

definition insert_history_confirmedOutput ::
  "string \<Rightarrow> string \<Rightarrow> nat \<Rightarrow> int \<Rightarrow> string \<Rightarrow> int \<Rightarrow> (store, unit) statement" where
  "insert_history_confirmedOutput address txid index val scr height s =
     (if (address, bytea txid, index) \<in> set (map history_key (history s))
      then Inl (DuplicateKey ''history'')
      else Inr ((), s\<lparr>history := history s @
                        [\<lparr>h_address = address, h_txid = bytea txid, h_index = index,
                          h_value = val, h_script = bytea scr, h_height = Some height,
                          h_input_txid = None, h_input_height = None\<rparr>]\<rparr>))"

text \<open>The history rows of one output: those of the given txid and output index.\<close>

definition spends :: "string \<Rightarrow> 32 word \<Rightarrow> history_row \<Rightarrow> bool" where
  "spends prev idx r \<longleftrightarrow> h_txid r = bytea prev \<and> h_index r = unat idx"

text \<open>Modelled from the spec: \<open>SQL.update.history.addUnconfirmedInput\<close> is missing; on the
  history rows of the spent output it records the spending txid with a null input
  height, and returns the addresses of these rows.\<close>

definition update_history_addUnconfirmedInput ::
  "string \<Rightarrow> string \<Rightarrow> 32 word \<Rightarrow> (store, string list) statement" where
  "update_history_addUnconfirmedInput txid prev idx s =
     Inr (map h_address (filter (spends prev idx) (history s)),
          s\<lparr>history :=
              map (\<lambda>r. if spends prev idx r
                       then r\<lparr>h_input_txid := Some (bytea txid), h_input_height := None\<rparr>
                       else r)
                (history s)\<rparr>)"

text \<open>Modelled from the spec: \<open>SQL.update.history.addConfirmedInput\<close> is missing; on the
  history rows of the spent output it records the spending txid and the input height,
  and returns the addresses of these rows.\<close>

definition update_history_addConfirmedInput ::
  "string \<Rightarrow> int \<Rightarrow> string \<Rightarrow> 32 word \<Rightarrow> (store, string list) statement" where
  "update_history_addConfirmedInput txid height prev idx s =
     Inr (map h_address (filter (spends prev idx) (history s)),
          s\<lparr>history :=
              map (\<lambda>r. if spends prev idx r
                       then r\<lparr>h_input_txid := Some (bytea txid), h_input_height := Some height\<rparr>
                       else r)
                (history s)\<rparr>)"

text \<open>Modelled from the spec: \<open>SQL.update.history.makeInputConfirmed\<close> is missing; on the
  history rows of the spent output it upgrades the input height, and returns the
  addresses of these rows.\<close>

definition update_history_makeInputConfirmed ::
  "int \<Rightarrow> string \<Rightarrow> 32 word \<Rightarrow> (store, string list) statement" where
  "update_history_makeInputConfirmed height prev idx s =
     Inr (map h_address (filter (spends prev idx) (history s)),
          s\<lparr>history :=
              map (\<lambda>r. if spends prev idx r then r\<lparr>h_input_height := Some height\<rparr> else r)
                (history s)\<rparr>)"

text \<open>Modelled from the spec: \<open>SQL.update.history.makeOutputConfirmed\<close> is missing; it sets
  the height of every history row produced by the given txid, and returns the
  addresses of these rows.\<close>

definition update_history_makeOutputConfirmed ::
  "int \<Rightarrow> string \<Rightarrow> (store, string list) statement" where
  "update_history_makeOutputConfirmed height txid s =
     Inr (map h_address (filter (\<lambda>r. h_txid r = bytea txid) (history s)),
          s\<lparr>history :=
              map (\<lambda>r. if h_txid r = bytea txid then r\<lparr>h_height := Some height\<rparr> else r)
                (history s)\<rparr>)"

text \<open>Modelled from the spec: \<open>SQL.insert.blocks.row\<close> is missing; it inserts a block row
  (key: height).\<close>

definition insert_blocks_row ::
  "int \<Rightarrow> string \<Rightarrow> string \<Rightarrow> string \<Rightarrow> (store, unit) statement" where
  "insert_blocks_row height hash header txids s =
     (if height \<in> set (map b_height (blocks s)) then Inl (DuplicateKey ''blocks'')
      else Inr ((), s\<lparr>blocks := blocks s @
                        [\<lparr>b_height = height, b_hash = bytea hash, b_header = bytea header,
                          b_txids = bytea txids\<rparr>]\<rparr>))"

text \<open>Modelled from the spec: \<open>SQL.select.blocks.latest\<close> is missing; it returns the
  block row of greatest height, if there is one.\<close>

definition select_blocks_latest :: "(store, block_row list) statement" where
  "select_blocks_latest s =
     Inr (fold (\<lambda>r acc. case acc of [] \<Rightarrow> [r]
                         | m # _ \<Rightarrow> if b_height m < b_height r then [r] else acc)
            (blocks s) [], s)"

definition above :: "int \<Rightarrow> int option \<Rightarrow> bool" where
  "above f h = (case h of None \<Rightarrow> False | Some x \<Rightarrow> f < x)"

text \<open>Modelled from the spec: \<open>SQL.select.fromHeight\<close> is missing; it selects the block
  rows with a height greater than the parameter.\<close>

definition select_fromHeight :: "int \<Rightarrow> (store, block_row list) statement" where
  "select_fromHeight f s = Inr (filter (\<lambda>r. f < b_height r) (blocks s), s)"

text \<open>Modelled from the spec: \<open>SQL.delete.blocks.fromHeight\<close> is missing; it deletes the
  block rows with a height greater than the parameter.\<close>

definition delete_blocks_fromHeight :: "int \<Rightarrow> (store, unit) statement" where
  "delete_blocks_fromHeight f s =
     Inr ((), s\<lparr>blocks := filter (\<lambda>r. \<not> f < b_height r) (blocks s)\<rparr>)"

text \<open>Modelled from the spec: \<open>SQL.update.transactions.makeUnconfirmed\<close> is missing; it
  sets the height to null on the transaction rows with a height greater than the
  parameter.\<close>

definition update_transactions_makeUnconfirmed :: "int \<Rightarrow> (store, unit) statement" where
  "update_transactions_makeUnconfirmed f s =
     Inr ((), s\<lparr>transactions :=
                  map (\<lambda>r. if above f (t_height r) then r\<lparr>t_height := None\<rparr> else r)
                    (transactions s)\<rparr>)"

text \<open>Modelled from the spec: \<open>SQL.update.history.makeOutputsUnconfirmed\<close> is missing; it
  sets the height to null on the history rows with a height greater than the
  parameter.\<close>

definition update_history_makeOutputsUnconfirmed :: "int \<Rightarrow> (store, unit) statement" where
  "update_history_makeOutputsUnconfirmed f s =
     Inr ((), s\<lparr>history :=
                  map (\<lambda>r. if above f (h_height r) then r\<lparr>h_height := None\<rparr> else r)
                    (history s)\<rparr>)"

text \<open>Modelled from the spec: \<open>SQL.update.history.makeInputsUnconfirmed\<close> is missing; it
  sets the input height to null on the history rows with an input height greater than
  the parameter.\<close>

definition update_history_makeInputsUnconfirmed :: "int \<Rightarrow> (store, unit) statement" where
  "update_history_makeInputsUnconfirmed f s =
     Inr ((), s\<lparr>history :=
                  map (\<lambda>r. if above f (h_input_height r) then r\<lparr>h_input_height := None\<rparr> else r)
                    (history s)\<rparr>)"

text \<open>Modelled from the spec: \<open>SQL.delete.transactions.unconfirmedByTxIds\<close> is missing; it
  deletes the transaction rows of the given txids.\<close>

definition delete_transactions_unconfirmedByTxIds :: "string list \<Rightarrow> (store, unit) statement" where
  "delete_transactions_unconfirmedByTxIds ids s =
     Inr ((), s\<lparr>transactions :=
                  filter (\<lambda>r. t_txid r \<notin> set (map bytea ids)) (transactions s)\<rparr>)"

text \<open>Modelled from the spec: \<open>SQL.delete.history.unconfirmedByTxIds\<close> is missing; it
  deletes the history rows produced by the given txids whose height is null.\<close>

definition delete_history_unconfirmedByTxIds :: "string list \<Rightarrow> (store, unit) statement" where
  "delete_history_unconfirmedByTxIds ids s =
     Inr ((), s\<lparr>history :=
                  filter (\<lambda>r. \<not> (h_txid r \<in> set (map bytea ids) \<and> h_height r = None))
                    (history s)\<rparr>)"

text \<open>Modelled from the spec: \<open>SQL.update.history.deleteUnconfirmedInputsByTxIds\<close> is
  missing; it sets the input fields to null on the history rows whose input txid is
  one of the given txids.\<close>

definition update_history_deleteUnconfirmedInputsByTxIds ::
  "string list \<Rightarrow> (store, unit) statement" where
  "update_history_deleteUnconfirmedInputsByTxIds ids s =
     Inr ((), s\<lparr>history :=
                  map (\<lambda>r. if h_input_txid r \<in> set (map (\<lambda>i. Some (bytea i)) ids)
                           then r\<lparr>h_input_txid := None, h_input_height := None\<rparr> else r)
                    (history s)\<rparr>)"

section \<open>Sync: the importers\<close>

text \<open>
  \<open>_getLatest({client: client})\<close>: the latest block of the store, or the zero hash at
  height -1 when there is no block.
\<close>

definition getLatest :: "(store, string \<times> int) action" where
  "getLatest =
     andThen (queryAsync ''select.blocks.latest'' select_blocks_latest)
       (\<lambda>rows. case rows of
                  [] \<Rightarrow> resolve (ZERO_HASH, - 1)
                | row # _ \<Rightarrow> resolve (b_hash row, b_height row))"

subsection \<open>Importing an unconfirmed transaction\<close>

text \<open>
  Within one import the statements and notifications are taken in the order of the
  source text; the first statement that fails ends the import.
\<close>

definition prevTxIds_of :: "tx \<Rightarrow> string list" where
  "prevTxIds_of t = uniq (map prevTxId (tx_inputs t))"

text \<open>The keys \<open>prevTxIds.concat(txid)\<close> that \<open>_importUnconfirmedTx\<close> locks.\<close>

definition importUnconfirmedTx_keys :: "tx \<Rightarrow> string list" where
  "importUnconfirmedTx_keys t = prevTxIds_of t @ [tx_id t]"

definition importUnconfirmedInput :: "string \<Rightarrow> tx_input \<Rightarrow> (store, unit) action" where
  "importUnconfirmedInput txid inp =
     andThen (queryAsync ''update.history.addUnconfirmedInput''
                (update_history_addUnconfirmedInput
                   (hex_arg txid) (hex_arg (prevTxId inp)) (outputIndex inp)))
       (\<lambda>rows. forEach
                 (\<lambda>address c. publish (broadcastAddress address txid JNull JNull (opts_client c)) c)
                 rows)"

definition importUnconfirmedOutput :: "string \<Rightarrow> nat \<times> tx_output \<Rightarrow> (store, unit) action" where
  "importUnconfirmedOutput txid io =
     forEach
       (\<lambda>address.
          andThen (queryAsync ''insert.history.unconfirmedOutput''
                     (insert_history_unconfirmedOutput address (hex_arg txid) (fst io)
                        (satoshis (snd io)) (hex_arg (script (snd io)))))
            (\<lambda>u c. publish (broadcastAddress address txid JNull JNull (opts_client c)) c))
       (addresses (snd io))"

text \<open>
  The body run inside the database transaction. The result is the boolean the body
  returns together with the registry of orphans, which the body updates in memory
  when it defers the transaction.
\<close>

definition importUnconfirmedTx_body :: "tx \<Rightarrow> orphanedTx \<Rightarrow> (store, bool \<times> orphanedTx) action" where
  "importUnconfirmedTx_body t reg =
     andThen (queryAsync ''select.transactions.exists''
                (select_transactions_exists (hex_arg (tx_id t))))
       (\<lambda>count.
          if count \<noteq> 0 then resolve (True, reg)
          else
            andThen (queryAsync ''select.transactions.existsMany''
                       (select_transactions_existsMany (map hex_arg (prevTxIds_of t))))
              (\<lambda>rows.
                 if length (difference (prevTxIds_of t) rows) > 0
                 then resolve (False, markOrphaned (tx_id t) (difference (prevTxIds_of t) rows) reg)
                 else
                   andThen (queryAsync ''insert.transactions.unconfirmed''
                              (insert_transactions_unconfirmed (hex_arg (tx_id t)) (hex_arg (tx_raw t))))
                  (\<lambda>u. andThen (forEach (importUnconfirmedInput (tx_id t)) (tx_inputs t))
                  (\<lambda>u. andThen (forEach (importUnconfirmedOutput (tx_id t))
                                   (enumerate 0 (tx_outputs t)))
                  (\<lambda>u. andThen (\<lambda>c. publish (broadcastTx (tx_id t) JNull JNull (opts_client c)) c)
                  (\<lambda>u. andThen (\<lambda>c. publish (addTx (tx_id t) (opts_client c) JUndefined) c)
                  (\<lambda>u. resolve (True, reg))))))))"

text \<open>
  \<open>_importUnconfirmedTx\<close>: the body in a transaction, and the handler \<open>catch\<close> that
  logs the error and returns \<open>false\<close>. The result is the boolean the promise resolves
  to, the registry, the store and the notifications delivered.
\<close>

definition importUnconfirmedTx ::
  "nat \<Rightarrow> (string \<Rightarrow> bool) \<Rightarrow> tx \<Rightarrow> orphanedTx \<Rightarrow> store
     \<Rightarrow> bool \<times> orphanedTx \<times> store \<times> event list" where
  "importUnconfirmedTx n flt t reg s =
     (case executeTransaction n flt (importUnconfirmedTx_body t reg) s of
        (Inr (b, reg'), s', evs) \<Rightarrow> (b, reg', s', evs)
      | (Inl e, s', evs) \<Rightarrow> (False, reg, s', evs))"

subsection \<open>Importing a block\<close>

text \<open>
  The keys \<open>allTxIds\<close> that \<open>_importBlock\<close> locks: the previous txids of all inputs of
  all transactions, then the txids of the block, without duplicates.
\<close>

definition importBlock_keys :: "block \<Rightarrow> string list" where
  "importBlock_keys b =
     uniq (concat (map (\<lambda>t. map prevTxId (tx_inputs t)) (blk_transactions b))
           @ map tx_id (blk_transactions b))"

definition importConfirmedOutput ::
  "block \<Rightarrow> int \<Rightarrow> string \<Rightarrow> nat \<times> tx_output \<Rightarrow> (store, unit) action" where
  "importConfirmedOutput b height txid io =
     forEach
       (\<lambda>address.
          andThen (queryAsync ''insert.history.confirmedOutput''
                     (insert_history_confirmedOutput address (hex_arg txid) (fst io)
                        (satoshis (snd io)) (hex_arg (script (snd io))) height))
            (\<lambda>u c. publish (broadcastAddress address txid (JStr (blk_hash b)) (JNum height)
                               (opts_client c)) c))
       (addresses (snd io))"

text \<open>
  The first pass over the transactions of the block. \<open>existingTx\<close> collects the txids
  that were already in the store; it is the result of the pass.
\<close>

definition importBlockTx ::
  "block \<Rightarrow> int \<Rightarrow> tx \<Rightarrow> string list \<Rightarrow> (store, string list) action" where
  "importBlockTx b height t existingTx =
     andThen (queryAsync ''select.transactions.exists''
                (select_transactions_exists (hex_arg (tx_id t))))
       (\<lambda>count.
          andThen
            (if count \<noteq> 0
             then
               andThen (queryAsync ''update.transactions.makeConfirmed''
                          (update_transactions_makeConfirmed height (hex_arg (tx_id t))))
              (\<lambda>u. andThen (queryAsync ''update.history.makeOutputConfirmed''
                              (update_history_makeOutputConfirmed height (hex_arg (tx_id t))))
              (\<lambda>rows. andThen
                        (forEach
                           (\<lambda>address c. publish (broadcastAddress address (tx_id t)
                                                  (JStr (blk_hash b)) (JNum height) (opts_client c)) c)
                           rows)
              (\<lambda>u. resolve (existingTx @ [tx_id t]))))
             else
               andThen (queryAsync ''insert.transactions.confirmed''
                          (insert_transactions_confirmed (hex_arg (tx_id t)) height
                             (hex_arg (tx_raw t))))
              (\<lambda>u. andThen (forEach (importConfirmedOutput b height (tx_id t))
                               (enumerate 0 (tx_outputs t)))
              (\<lambda>u. resolve existingTx)))
         (\<lambda>existing.
            andThen (\<lambda>c. publish (broadcastTx (tx_id t) (JStr (blk_hash b)) (JNum height)
                                    (opts_client c)) c)
           (\<lambda>u. andThen (\<lambda>c. publish (addTx (tx_id t) (opts_client c) JUndefined) c)
           (\<lambda>u. resolve existing))))"

fun importBlockTxs ::
  "block \<Rightarrow> int \<Rightarrow> tx list \<Rightarrow> string list \<Rightarrow> (store, string list) action" where
  "importBlockTxs b height [] existingTx c = Inr (existingTx, c)"
| "importBlockTxs b height (t # ts) existingTx c =
     (case importBlockTx b height t existingTx c of
        Inl e \<Rightarrow> Inl e
      | Inr (existing, c') \<Rightarrow> importBlockTxs b height ts existing c')"

text \<open>The test that skips the coinbase input, as the source writes it.\<close>

definition skip_coinbase :: "nat \<Rightarrow> tx_input \<Rightarrow> bool" where
  "skip_coinbase index inp \<longleftrightarrow>
     index = 0 \<and> outputIndex inp = 0xFFFFFFFF \<and> prevTxId inp = ZERO_HASH"

definition importBlockInput ::
  "block \<Rightarrow> int \<Rightarrow> string list \<Rightarrow> string \<Rightarrow> nat \<times> tx_input \<Rightarrow> (store, unit) action" where
  "importBlockInput b height existingTx txid ii =
     (if skip_coinbase (fst ii) (snd ii) then resolve ()
      else
        andThen
          (if txid \<in> set existingTx
           then queryAsync ''update.history.makeInputConfirmed''
                  (update_history_makeInputConfirmed height
                     (hex_arg (prevTxId (snd ii))) (outputIndex (snd ii)))
           else queryAsync ''update.history.addConfirmedInput''
                  (update_history_addConfirmedInput (hex_arg txid) height
                     (hex_arg (prevTxId (snd ii))) (outputIndex (snd ii))))
          (\<lambda>rows. forEach
                    (\<lambda>address c. publish (broadcastAddress address txid
                                           (JStr (blk_hash b)) (JNum height) (opts_client c)) c)
                    rows))"

definition importBlockInputs ::
  "block \<Rightarrow> int \<Rightarrow> string list \<Rightarrow> tx \<Rightarrow> (store, unit) action" where
  "importBlockInputs b height existingTx t =
     forEach (importBlockInput b height existingTx (tx_id t)) (enumerate 0 (tx_inputs t))"

text \<open>
  \<open>_importBlock(block, height, client)\<close>: the header, the transactions with their
  outputs, the inputs, and the notifications of the block.
\<close>

definition importBlock :: "block \<Rightarrow> int \<Rightarrow> (store, unit) action" where
  "importBlock b height =
     andThen (queryAsync ''insert.blocks.row''
                (insert_blocks_row height (hex_arg (blk_hash b)) (hex_arg (blk_header b))
                   (hex_arg (concat (map tx_id (blk_transactions b))))))
    (\<lambda>u. andThen (importBlockTxs b height (blk_transactions b) [])
    (\<lambda>existingTx. andThen (forEach (importBlockInputs b height existingTx) (blk_transactions b))
    (\<lambda>u. andThen (\<lambda>c. publish (broadcastBlock (blk_hash b) height (opts_client c)) c)
    (\<lambda>u c. publish (addBlock (blk_hash b) (opts_client c)) c))))"

text \<open>
  The import of a block as \<open>_runBlockImport\<close> runs it: \<open>_importBlock\<close>, then
  \<open>_getLatest\<close>, in one transaction.
\<close>

definition runImportBlock ::
  "nat \<Rightarrow> (string \<Rightarrow> bool) \<Rightarrow> block \<Rightarrow> int \<Rightarrow> store
     \<Rightarrow> (error + string \<times> int) \<times> store \<times> event list" where
  "runImportBlock n flt b height s =
     executeTransaction n flt (andThen (importBlock b height) (\<lambda>u. getLatest)) s"

subsection \<open>The rollback of a reorganisation\<close>

text \<open>
  The body of the transaction that \<open>_runBlockImport\<close> runs under \<open>reorgLock\<close> when the
  walk back has stopped at the stored block \<open>latest\<close> and \<open>latest.hash\<close> differs from
  the hash of the stored tip. The parameter of every statement is
  \<open>latest.height - 1\<close>.
\<close>

definition reorg_body :: "int \<Rightarrow> (store, string \<times> int) action" where
  "reorg_body latest_height =
     andThen (queryAsync ''select.fromHeight'' (select_fromHeight (latest_height - 1)))
    (\<lambda>rows. andThen (queryAsync ''delete.blocks.fromHeight''
                       (delete_blocks_fromHeight (latest_height - 1)))
    (\<lambda>u. andThen (queryAsync ''update.transactions.makeUnconfirmed''
                    (update_transactions_makeUnconfirmed (latest_height - 1)))
    (\<lambda>u. andThen (queryAsync ''update.history.makeOutputsUnconfirmed''
                    (update_history_makeOutputsUnconfirmed (latest_height - 1)))
    (\<lambda>u. andThen (queryAsync ''update.history.makeInputsUnconfirmed''
                    (update_history_makeInputsUnconfirmed (latest_height - 1)))
    (\<lambda>u. andThen (forEach (\<lambda>row c. publish (removeBlock (b_hash row) (opts_client c)) c) rows)
    (\<lambda>u. getLatest))))))"

text \<open>
  The rollback as \<open>_runBlockImport\<close> runs it: the body in one transaction. The source
  passes this to \<open>_lock.reorgLock\<close> of \<open>util.SmartLock\<close>, which is not part of the
  sources read here and decides only when the body may start; one step of the loop is
  taken here with no other holder of the lock, so the body runs at once.
\<close>

definition reorg ::
  "nat \<Rightarrow> (string \<Rightarrow> bool) \<Rightarrow> int \<Rightarrow> store \<Rightarrow> (error + string \<times> int) \<times> store \<times> event list" where
  "reorg n flt latest_height s = executeTransaction n flt (reorg_body latest_height) s"

subsection \<open>One step of the block import\<close>

text \<open>Modelled from the spec: \<open>SQL.select.blocks.byHeight\<close> is missing; it selects the
  block rows of the given height (\<open>db.block_at\<close> in the spec).\<close>

definition select_blocks_byHeight :: "int \<Rightarrow> (store, block_row list) statement" where
  "select_blocks_byHeight h s = Inr (filter (\<lambda>r. b_height r = h) (blocks s), s)"

text \<open>
  The loop of \<open>_runBlockImport\<close> under the comment \<open>find latest block in storage
  that located in blockchain\<close>: from \<open>latest\<close> it downloads the block of the node at
  \<open>latest.height + 1\<close> and stops when \<open>latest.hash\<close> is the previous hash of its header;
  otherwise it takes for \<open>latest\<close> the stored block at \<open>latest.height - 1\<close>. Reading
  \<open>rows[0]\<close> of an empty result throws. \<open>getBlock\<close> stands for \<open>_network.getBlock\<close>
  and \<open>prevHashOf\<close> for \<open>util.encode(block.header.prevHash)\<close>. The result is the
  \<open>latest\<close> at which the loop stopped and the block downloaded last.
\<close>

function findLatest ::
  "(string \<Rightarrow> bool) \<Rightarrow> (int \<Rightarrow> error + block) \<Rightarrow> (string \<Rightarrow> string) \<Rightarrow> store
     \<Rightarrow> string \<times> int \<Rightarrow> error + ((string \<times> int) \<times> block)" where
  "findLatest flt getBlock prevHashOf s latest =
     (case getBlock (snd latest + 1) of
        Inl e \<Rightarrow> Inl e
      | Inr block \<Rightarrow>
          if fst latest = prevHashOf (blk_header block) then Inr (latest, block)
          else
            (case executeQuery flt ''select.blocks.byHeight''
                    (select_blocks_byHeight (snd latest - 1)) s of
               Inl e \<Rightarrow> Inl e
             | Inr (rows, s') \<Rightarrow>
                 (case rows of
                    [] \<Rightarrow> Inl TypeError
                  | row # others \<Rightarrow>
                      findLatest flt getBlock prevHashOf s (b_hash row, b_height row))))"
  by pat_completeness auto
termination
proof (relation "measure (\<lambda>(flt, getBlock, prevHashOf, s, latest).
         length (filter (\<lambda>r. b_height r < snd latest) (blocks s)))")
  show "wf (measure (\<lambda>(flt, getBlock, prevHashOf, s, latest).
         length (filter (\<lambda>r. b_height r < snd latest) (blocks s))))"
    by simp
next
  fix flt :: "string \<Rightarrow> bool" and getBlock :: "int \<Rightarrow> error + block"
    and prevHashOf :: "string \<Rightarrow> string" and s s' :: store and latest :: "string \<times> int"
    and block x rows row others
  assume q: "executeQuery flt ''select.blocks.byHeight''
               (select_blocks_byHeight (snd latest - 1)) s = Inr x"
    and x: "(rows, s') = x" and rows: "rows = row # others"
  from q x have sel: "rows = filter (\<lambda>r. b_height r = snd latest - 1) (blocks s)"
    by (auto simp: executeQuery_def select_blocks_byHeight_def split: if_splits)
  let ?bs = "blocks s"
  from sel rows have "row # others = filter (\<lambda>r. b_height r = snd latest - 1) ?bs"
    by simp
  then have "row \<in> set (filter (\<lambda>r. b_height r = snd latest - 1) ?bs)"
    by (metis list.set_intros(1))
  then have mem: "row \<in> set (filter (\<lambda>r. b_height r < snd latest) ?bs)"
    and h: "b_height row = snd latest - 1"
    by auto
  have "filter (\<lambda>r. b_height r < snd latest - 1) ?bs
        = filter (\<lambda>r. b_height r < snd latest - 1) (filter (\<lambda>r. b_height r < snd latest) ?bs)"
    by (auto simp: filter_id_conv intro: filter_cong)
  then have "length (filter (\<lambda>r. b_height r < snd latest - 1) ?bs)
        < length (filter (\<lambda>r. b_height r < snd latest) ?bs)"
    using length_filter_less [OF mem, of "\<lambda>r. b_height r < snd latest - 1"] h by simp
  then show "((flt, getBlock, prevHashOf, s, b_hash row, b_height row),
              (flt, getBlock, prevHashOf, s, latest))
      \<in> measure (\<lambda>(flt, getBlock, prevHashOf, s, latest).
           length (filter (\<lambda>r. b_height r < snd latest) (blocks s)))"
    by (simp add: h)
qed

text \<open>
  One turn of the loop that advances the tip, for the stored tip \<open>stored\<close>
  (\<open>this._latest\<close>): the search above; when the hash found differs from the hash of
  the stored tip, the rollback, whose statements get \<open>latest.height - 1\<close>; then the
  import of the downloaded block at \<open>latest.height + 1\<close>. The result is the new
  \<open>this._latest\<close> or the error that ends the turn, the store, and the notifications
  delivered.
\<close>

definition blockImport_step ::
  "nat \<Rightarrow> (string \<Rightarrow> bool) \<Rightarrow> (int \<Rightarrow> error + block) \<Rightarrow> (string \<Rightarrow> string)
     \<Rightarrow> string \<times> int \<Rightarrow> store \<Rightarrow> (error + string \<times> int) \<times> store \<times> event list" where
  "blockImport_step n flt getBlock prevHashOf stored s =
     (case findLatest flt getBlock prevHashOf s stored of
        Inl e \<Rightarrow> (Inl e, s, [])
      | Inr (latest, block) \<Rightarrow>
          (case (if fst latest \<noteq> fst stored then reorg n flt (snd latest) s
                 else (Inr stored, s, [])) of
             (Inl e, s1, evs1) \<Rightarrow> (Inl e, s1, evs1)
           | (Inr stored1, s1, evs1) \<Rightarrow>
               (case runImportBlock n flt block (snd latest + 1) s1 of
                  (r, s2, evs2) \<Rightarrow> (r, s2, evs1 @ evs2))))"

subsection \<open>The reconciliation of the mempool\<close>

text \<open>
  One pass of the second loop of \<open>_runBlockImport\<close>, given the txids \<open>nTxIds\<close> of the
  mempool of the node. The result is the list of txids whose import is scheduled, or
  the error that makes the loop wait and retry; then the store and the notifications
  delivered. The removal runs as transaction \<open>n\<close>.
\<close>

definition updateMempool ::
  "nat \<Rightarrow> (string \<Rightarrow> bool) \<Rightarrow> string list \<Rightarrow> store
     \<Rightarrow> (error + string list) \<times> store \<times> event list" where
  "updateMempool n flt nTxIds s =
     (case executeQuery flt ''select.transactions.unconfirmed'' select_transactions_unconfirmed s of
        Inl e \<Rightarrow> (Inl e, s, [])
      | Inr (sTxIds, s0) \<Rightarrow>
          if length (difference sTxIds nTxIds) > 0
          then
            (case executeTransaction n flt
                    (andThen (queryAsync ''delete.transactions.unconfirmedByTxIds''
                               (delete_transactions_unconfirmedByTxIds
                                  (map hex_arg (difference sTxIds nTxIds))))
                    (\<lambda>u. andThen (queryAsync ''delete.history.unconfirmedByTxIds''
                               (delete_history_unconfirmedByTxIds
                                  (map hex_arg (difference sTxIds nTxIds))))
                    (\<lambda>u. andThen (queryAsync ''update.history.deleteUnconfirmedInputsByTxIds''
                               (update_history_deleteUnconfirmedInputsByTxIds
                                  (map hex_arg (difference sTxIds nTxIds))))
                    (\<lambda>u. forEach
                           (\<lambda>txid c. publish (removeTx txid (opts_client c) JUndefined) c)
                           (map hex_arg (difference sTxIds nTxIds))))))
                    s0 of
               (Inl e, s1, evs) \<Rightarrow> (Inl e, s1, evs)
             | (Inr u, s1, evs) \<Rightarrow> (Inr (difference nTxIds sTxIds), s1, evs))
          else (Inr (difference nTxIds sTxIds), s0, []))"

section \<open>The colored coin rescanner\<close>

text \<open>
  The second class \<open>Sync\<close> keeps the table of scanned txids. Its store holds the tables
  it reads and writes: the block rows and transaction rows of the scanner, the rows of
  scanned txids, the color definitions (id and identifier string), and the calls it
  makes into the colored coin library, which is not part of the sources read here.
\<close>

record scanned_row =
  s_txid :: string
  s_blockhash :: "string option"
  s_height :: "int option"

datatype cclib_call =
    FullScanTx string string
  | RemoveDefinition int
  | RemoveColorValues string string

record ccstore =
  cc_blocks :: "block_row list"
  cc_transactions :: "tx_row list"
  cc_scanned :: "scanned_row list"
  cc_definitions :: "(int \<times> string) list"
  cc_calls :: "cclib_call list"

subsection \<open>Template literals and patterns\<close>

text \<open>
  The cooked value of the literal text of a template literal: a backslash followed by
  one of \<open>b f n r t v\<close> is the control character, and a backslash followed by any
  other character that starts no escape sequence is that character. Escapes with
  \<open>x\<close>, \<open>u\<close> or a digit do not occur in this program.
\<close>

definition escape_value :: "char \<Rightarrow> char" where
  "escape_value e =
     (if e = CHR ''b'' then CHR 0x08 else if e = CHR ''f'' then CHR 0x0C
      else if e = CHR ''n'' then CHR 0x0A else if e = CHR ''r'' then CHR 0x0D
      else if e = CHR ''t'' then CHR 0x09 else if e = CHR ''v'' then CHR 0x0B
      else e)"

fun template_cooked :: "string \<Rightarrow> string" where
  "template_cooked [] = []"
| "template_cooked [c] = (if c = CHR 0x5C then [] else [c])"
| "template_cooked (c # e # cs) =
     (if c = CHR 0x5C then escape_value e # template_cooked cs
      else c # template_cooked (e # cs))"

text \<open>
  The parameter of the lookup of a color definition of class \<open>epobc\<close>: the template
  literal whose text is \<open>epobc:\<close>, the substitution of \<open>txId\<close>, and the text made of a
  colon, a backslash and \<open>d+:0\<close>.
\<close>

definition epobc_params :: "string \<Rightarrow> string" where
  "epobc_params txId =
     template_cooked ''epobc:'' @ txId @ template_cooked (CHR '':'' # CHR 0x5C # ''d+:0'')"

text \<open>
  Modelled from the spec: the matching of an identifier string against a pattern is
  done by the database inside the missing statement \<open>SQL.select.ccDefinitions.colorId\<close>.
  The patterns are regular expressions restricted to what occurs here: a backslash
  followed by \<open>d\<close> stands for a digit, a backslash followed by another character and
  any other character stand for that character, and \<open>+\<close> after an atom asks for one
  or more of it. A string matches when the pattern matches somewhere in it.
\<close>

datatype tok = TLit char | TDigit | TPlus

fun tokens :: "string \<Rightarrow> tok list" where
  "tokens [] = []"
| "tokens [c] = [if c = CHR ''+'' then TPlus else TLit c]"
| "tokens (c # e # cs) =
     (if c = CHR 0x5C then (if e = CHR ''d'' then TDigit else TLit e) # tokens cs
      else if c = CHR ''+'' then TPlus # tokens (e # cs)
      else TLit c # tokens (e # cs))"

fun items :: "tok list \<Rightarrow> (tok \<times> bool) list" where
  "items [] = []"
| "items (t # TPlus # ts) = (t, True) # items ts"
| "items (t # ts) = (t, False) # items ts"

fun tok_accepts :: "tok \<Rightarrow> char \<Rightarrow> bool" where
  "tok_accepts (TLit l) c = (c = l)"
| "tok_accepts TDigit c = (c \<in> set ''0123456789'')"
| "tok_accepts TPlus c = (c = CHR ''+'')"

fun match_here :: "(tok \<times> bool) list \<Rightarrow> string \<Rightarrow> bool" where
  "match_here [] s = True"
| "match_here (i # is) [] = False"
| "match_here ((t, False) # is) (c # cs) = (tok_accepts t c \<and> match_here is cs)"
| "match_here ((t, True) # is) (c # cs) =
     (tok_accepts t c \<and> (match_here is cs \<or> match_here ((t, True) # is) cs))"

fun match_somewhere :: "(tok \<times> bool) list \<Rightarrow> string \<Rightarrow> bool" where
  "match_somewhere is [] = match_here is []"
| "match_somewhere is (c # cs) = (match_here is (c # cs) \<or> match_somewhere is cs)"

definition matches :: "string \<Rightarrow> string \<Rightarrow> bool" where
  "matches pattern s = match_somewhere (items (tokens pattern)) s"

text \<open>Modelled from the spec: \<open>SQL.select.ccDefinitions.colorId\<close> is missing; it returns
  the ids of the color definitions whose identifier string matches the pattern.\<close>

definition select_ccDefinitions_colorId :: "string \<Rightarrow> (ccstore, int list) statement" where
  "select_ccDefinitions_colorId pattern s =
     Inr (map fst (filter (\<lambda>d. matches pattern (snd d)) (cc_definitions s)), s)"

subsection \<open>The statements of the rescanner\<close>

text \<open>Modelled from the spec: \<open>SQL.select.ccScannedTxIds.isTxScanned\<close> is missing; it tells
  whether a scanned row with the given txid exists.\<close>

definition select_ccScannedTxIds_isTxScanned :: "string \<Rightarrow> (ccstore, bool) statement" where
  "select_ccScannedTxIds_isTxScanned txid s =
     Inr (bytea txid \<in> set (map s_txid (cc_scanned s)), s)"

text \<open>Modelled from the spec: \<open>SQL.delete.ccScannedTxIds.byTxId\<close> is missing; it deletes the
  scanned rows of the given txid.\<close>

definition delete_ccScannedTxIds_byTxId :: "string \<Rightarrow> (ccstore, unit) statement" where
  "delete_ccScannedTxIds_byTxId txid s =
     Inr ((), s\<lparr>cc_scanned := filter (\<lambda>r. s_txid r \<noteq> bytea txid) (cc_scanned s)\<rparr>)"

text \<open>Modelled from the spec: \<open>SQL.insert.ccScannedTxIds.unconfirmed\<close> is missing; it
  inserts a scanned row with null block hash and height (key: txid).\<close>

definition insert_ccScannedTxIds_unconfirmed :: "string \<Rightarrow> (ccstore, unit) statement" where
  "insert_ccScannedTxIds_unconfirmed txid s =
     (if bytea txid \<in> set (map s_txid (cc_scanned s)) then Inl (DuplicateKey ''scanned'')
      else Inr ((), s\<lparr>cc_scanned := cc_scanned s @
                        [\<lparr>s_txid = bytea txid, s_blockhash = None, s_height = None\<rparr>]\<rparr>))"

text \<open>Modelled from the spec: \<open>SQL.insert.ccScannedTxIds.confirmed\<close> is missing; it inserts
  a scanned row with the given block hash and height (key: txid).\<close>

definition insert_ccScannedTxIds_confirmed ::
  "string \<Rightarrow> string \<Rightarrow> int \<Rightarrow> (ccstore, unit) statement" where
  "insert_ccScannedTxIds_confirmed txid blockhash height s =
     (if bytea txid \<in> set (map s_txid (cc_scanned s)) then Inl (DuplicateKey ''scanned'')
      else Inr ((), s\<lparr>cc_scanned := cc_scanned s @
                        [\<lparr>s_txid = bytea txid, s_blockhash = Some (bytea blockhash),
                          s_height = Some height\<rparr>]\<rparr>))"

text \<open>Modelled from the spec: \<open>SQL.select.ccScannedTxIds.latestBlock\<close> is missing; it
  returns the block hash and height of the scanned row of greatest height, if a
  scanned row has a height.\<close>

definition scanned_blocks :: "scanned_row list \<Rightarrow> (string option \<times> int) list" where
  "scanned_blocks rows =
     concat (map (\<lambda>r. case s_height r of None \<Rightarrow> [] | Some h \<Rightarrow> [(s_blockhash r, h)]) rows)"

definition select_ccScannedTxIds_latestBlock ::
  "(ccstore, (string option \<times> int) list) statement" where
  "select_ccScannedTxIds_latestBlock s =
     Inr (fold (\<lambda>r acc. case acc of [] \<Rightarrow> [r]
                         | m # _ \<Rightarrow> if snd m < snd r then [r] else acc)
            (scanned_blocks (cc_scanned s)) [], s)"

text \<open>Modelled from the spec: \<open>SQL.select.ccScannedTxIds.blockHash\<close> is missing; it returns
  the block hashes of the scanned rows of the given height.\<close>

definition select_ccScannedTxIds_blockHash :: "int \<Rightarrow> (ccstore, string option list) statement" where
  "select_ccScannedTxIds_blockHash height s =
     Inr (map s_blockhash (filter (\<lambda>r. s_height r = Some height) (cc_scanned s)), s)"

text \<open>Modelled from the spec: \<open>SQL.select.blocks.latest\<close> of the rescanner is missing; it
  returns the block row of greatest height, if there is one.\<close>

definition select_cc_blocks_latest :: "(ccstore, block_row list) statement" where
  "select_cc_blocks_latest s =
     Inr (fold (\<lambda>r acc. case acc of [] \<Rightarrow> [r]
                         | m # _ \<Rightarrow> if b_height m < b_height r then [r] else acc)
            (cc_blocks s) [], s)"

text \<open>Modelled from the spec: \<open>SQL.select.blocks.txIdsByHeight\<close> is missing; it returns the
  block rows of the given height with their hash, header and txids.\<close>

definition select_blocks_txIdsByHeight :: "int \<Rightarrow> (ccstore, block_row list) statement" where
  "select_blocks_txIdsByHeight height s =
     Inr (filter (\<lambda>r. b_height r = height) (cc_blocks s), s)"

text \<open>Modelled from the spec: \<open>SQL.update.ccScannedTxIds.makeUnconfirmed\<close> is missing; it
  sets block hash and height to null on the scanned rows with a height greater than
  the parameter.\<close>

definition update_ccScannedTxIds_makeUnconfirmed :: "int \<Rightarrow> (ccstore, unit) statement" where
  "update_ccScannedTxIds_makeUnconfirmed height s =
     Inr ((), s\<lparr>cc_scanned :=
                  map (\<lambda>r. if above height (s_height r)
                           then r\<lparr>s_blockhash := None, s_height := None\<rparr> else r)
                    (cc_scanned s)\<rparr>)"

text \<open>Modelled from the spec: \<open>SQL.update.ccScannedTxIds.makeConfirmed\<close> is missing; it sets
  the given block hash and height on the scanned rows of the given txids.\<close>

definition update_ccScannedTxIds_makeConfirmed ::
  "string list \<Rightarrow> string \<Rightarrow> int \<Rightarrow> (ccstore, unit) statement" where
  "update_ccScannedTxIds_makeConfirmed txids blockhash height s =
     Inr ((), s\<lparr>cc_scanned :=
                  map (\<lambda>r. if s_txid r \<in> set (map bytea txids)
                           then r\<lparr>s_blockhash := Some (bytea blockhash), s_height := Some height\<rparr>
                           else r)
                    (cc_scanned s)\<rparr>)"

text \<open>Modelled from the spec: \<open>SQL.select.transactions.byTxId\<close> is missing; it returns the
  raw transactions of the transaction rows with the given txid.\<close>

definition select_transactions_byTxId :: "string \<Rightarrow> (ccstore, string list) statement" where
  "select_transactions_byTxId txid s =
     Inr (map t_tx (filter (\<lambda>r. t_txid r = bytea txid) (cc_transactions s)), s)"

subsection \<open>Adding and removing scanned transactions\<close>

text \<open>
  Modelled from the spec: the colored coin library (\<open>cclib\<close>) is not part of the sources
  read here. A call into it (\<open>fullScanTx\<close>, \<open>removeColorValues\<close>) is recorded in the
  store; \<open>_cdefManager.remove({id: id})\<close> drops the definition with that id.
\<close>

definition cclib :: "cclib_call \<Rightarrow> (ccstore, unit) action" where
  "cclib call c = Inr ((), c\<lparr>c_store := (c_store c)\<lparr>cc_calls := cc_calls (c_store c) @ [call]\<rparr>\<rparr>)"

definition cdefManager_remove :: "int \<Rightarrow> (ccstore, unit) action" where
  "cdefManager_remove ident c =
     Inr ((), c\<lparr>c_store := (c_store c)
                 \<lparr>cc_definitions := filter (\<lambda>d. fst d \<noteq> ident) (cc_definitions (c_store c)),
                  cc_calls := cc_calls (c_store c) @ [RemoveDefinition ident]\<rparr>\<rparr>)"

text \<open>
  \<open>getTx(txId)\<close>: the raw transaction of the transaction table, or the error
  \<open>Tx ... not found!\<close>. The rescanner never writes this table, so the row read by
  \<open>executeQuery\<close> is the one the client sees.
\<close>

definition getTx :: "string \<Rightarrow> (ccstore, string) action" where
  "getTx txId =
     andThen (queryAsync ''select.transactions.byTxId'' (select_transactions_byTxId (hex_arg txId)))
       (\<lambda>rows c. case rows of
                    [] \<Rightarrow> Inl (OtherError (''Tx '' @ txId @ '' not found!''), c_sent c)
                  | raw # _ \<Rightarrow> Inr (raw, c))"

text \<open>
  \<open>_addTx(client, txId, blockhash, height)\<close>; \<open>conf\<close> is \<open>None\<close> when the last two
  arguments are left out. \<open>cdefClss\<close> are the color codes of the definition classes
  that the library registers.
\<close>

definition sync_addTx ::
  "string list \<Rightarrow> string \<Rightarrow> (string \<times> int) option \<Rightarrow> (ccstore, bool) action" where
  "sync_addTx cdefClss txId conf =
     andThen (queryAsync ''select.ccScannedTxIds.isTxScanned''
                (select_ccScannedTxIds_isTxScanned (hex_arg txId)))
       (\<lambda>scanned.
          if scanned then resolve False
          else
            andThen (getTx txId)
           (\<lambda>raw. andThen (forEach (\<lambda>cdefCls. cclib (FullScanTx txId cdefCls)) cdefClss)
           (\<lambda>u. andThen
                   (case conf of
                      None \<Rightarrow> queryAsync ''insert.ccScannedTxIds.unconfirmed''
                                (insert_ccScannedTxIds_unconfirmed (hex_arg txId))
                    | Some (blockhash, height) \<Rightarrow>
                        queryAsync ''insert.ccScannedTxIds.confirmed''
                          (insert_ccScannedTxIds_confirmed (hex_arg txId) (hex_arg blockhash) height))
           (\<lambda>u. resolve True))))"

text \<open>
  The part of \<open>removeTxs\<close> run for one definition class: the \<open>switch\<close> on the color
  code, the lookup of the definition, and the removal of the definition found or of
  the color values.
\<close>

definition removeTxs_cdefCls :: "string \<Rightarrow> string \<Rightarrow> (ccstore, unit) action" where
  "removeTxs_cdefCls txId cdefCls =
     (if cdefCls = ''epobc''
      then andThen (queryAsync ''select.ccDefinitions.colorId''
                      (select_ccDefinitions_colorId (epobc_params txId)))
             (\<lambda>rows. case rows of
                        [] \<Rightarrow> cclib (RemoveColorValues txId cdefCls)
                      | ident # _ \<Rightarrow> cdefManager_remove ident)
      else (\<lambda>c. Inl (OtherError (''Unknow cdefCls: '' @ cdefCls), c_sent c)))"

definition removeTxs_body :: "string list \<Rightarrow> string \<Rightarrow> (ccstore, bool) action" where
  "removeTxs_body cdefClss txId =
     andThen (queryAsync ''select.ccScannedTxIds.isTxScanned''
                (select_ccScannedTxIds_isTxScanned (hex_arg txId)))
       (\<lambda>scanned.
          if \<not> scanned then resolve False
          else
            andThen (forEach (removeTxs_cdefCls txId) cdefClss)
           (\<lambda>u. andThen (queryAsync ''delete.ccScannedTxIds.byTxId''
                           (delete_ccScannedTxIds_byTxId (hex_arg txId)))
           (\<lambda>u. resolve True)))"

text \<open>
  \<open>removeTxs(txIds)\<close>: one transaction per txid; an error is logged and the loop goes
  on with the next txid.
\<close>

fun removeTxs :: "nat \<Rightarrow> (string \<Rightarrow> bool) \<Rightarrow> string list \<Rightarrow> string list \<Rightarrow> ccstore \<Rightarrow> ccstore" where
  "removeTxs n flt cdefClss [] s = s"
| "removeTxs n flt cdefClss (txId # txIds) s =
     removeTxs n flt cdefClss txIds
       (fst (snd (executeTransaction n flt (removeTxs_body cdefClss txId) s)))"

fun addTxs :: "nat \<Rightarrow> (string \<Rightarrow> bool) \<Rightarrow> string list \<Rightarrow> string list \<Rightarrow> ccstore \<Rightarrow> ccstore" where
  "addTxs n flt cdefClss [] s = s"
| "addTxs n flt cdefClss (txId # txIds) s =
     addTxs n flt cdefClss txIds
       (fst (snd (executeTransaction n flt (sync_addTx cdefClss txId None) s)))"

subsection \<open>Updating the scanned blocks\<close>

text \<open>
  The inner loop of \<open>updateBlocks\<close> that walks back: it reads the block at
  \<open>height + 1\<close> and stops when the hash in hand is the previous hash of its header;
  otherwise it steps down one height and takes the block hash that the scanned rows
  record there. Reading \<open>rows[0]\<close> of an empty result throws. \<open>prevHashOf\<close> stands
  for \<open>util.encode(bitcore.Block.BlockHeader(header).prevHash)\<close>. The result is the
  hash and the height at which the loop stopped and the rows read last.
\<close>

function walkBack ::
  "(string \<Rightarrow> string) \<Rightarrow> string \<Rightarrow> int \<Rightarrow> (ccstore, string \<times> int \<times> block_row list) action" where
  "walkBack prevHashOf hash height c =
     (case queryAsync ''select.blocks.txIdsByHeight'' (select_blocks_txIdsByHeight (height + 1)) c of
        Inl e \<Rightarrow> Inl e
      | Inr (rows, c1) \<Rightarrow>
          (case rows of
             [] \<Rightarrow> Inl (TypeError, c_sent c1)
           | row # others \<Rightarrow>
               if hash = prevHashOf (b_header row) then Inr ((hash, height, rows), c1)
               else
                 (case queryAsync ''select.ccScannedTxIds.blockHash''
                         (select_ccScannedTxIds_blockHash (height - 1)) c1 of
                    Inl e \<Rightarrow> Inl e
                  | Inr (hs, c2) \<Rightarrow>
                      (case hs of
                         [] \<Rightarrow> Inl (TypeError, c_sent c2)
                       | None # hs' \<Rightarrow> Inl (TypeError, c_sent c2)
                       | Some h # hs' \<Rightarrow> walkBack prevHashOf h (height - 1) c2))))"
  by pat_completeness auto
termination
proof (relation "measure (\<lambda>(p, hash, height, c).
         length (filter (\<lambda>r. b_height r \<le> height + 1) (cc_blocks (c_store c))))")
  show "wf (measure (\<lambda>(p, hash, height, c).
         length (filter (\<lambda>r. b_height r \<le> height + 1) (cc_blocks (c_store c)))))"
    by simp
next
  fix prevHashOf :: "string \<Rightarrow> string" and hash :: string and height :: int
    and c c1 c2 :: "ccstore client" and x rows row others hs h y
  assume q1: "queryAsync ''select.blocks.txIdsByHeight''
                (select_blocks_txIdsByHeight (height + 1)) c = Inr x"
    and x: "(rows, c1) = x" and rows: "rows = row # others"
    and q2: "queryAsync ''select.ccScannedTxIds.blockHash''
                (select_ccScannedTxIds_blockHash (height - 1)) c1 = Inr y"
    and y: "(hs, c2) = y"
  from q1 x have c1: "c_store c1 = c_store c"
    and sel: "rows = filter (\<lambda>r. b_height r = height + 1) (cc_blocks (c_store c))"
    by (auto simp: queryAsync_def select_blocks_txIdsByHeight_def split: if_splits)
  from q2 y have c2: "c_store c2 = c_store c1"
    by (auto simp: queryAsync_def select_ccScannedTxIds_blockHash_def split: if_splits)
  let ?bs = "cc_blocks (c_store c)"
  from sel rows have "row # others = filter (\<lambda>r. b_height r = height + 1) ?bs"
    by simp
  then have "row \<in> set (filter (\<lambda>r. b_height r = height + 1) ?bs)"
    by (metis list.set_intros(1))
  then have mem: "row \<in> set (filter (\<lambda>r. b_height r \<le> height + 1) ?bs)"
    and notle: "\<not> b_height row \<le> height"
    by auto
  have "filter (\<lambda>r. b_height r \<le> height) ?bs
        = filter (\<lambda>r. b_height r \<le> height) (filter (\<lambda>r. b_height r \<le> height + 1) ?bs)"
    by (auto simp: filter_id_conv intro: filter_cong)
  then have "length (filter (\<lambda>r. b_height r \<le> height) ?bs)
        < length (filter (\<lambda>r. b_height r \<le> height + 1) ?bs)"
    using length_filter_less [OF mem, of "\<lambda>r. b_height r \<le> height"] notle by simp
  then show "((prevHashOf, h, height - 1, c2), (prevHashOf, hash, height, c))
      \<in> measure (\<lambda>(p, hash, height, c).
           length (filter (\<lambda>r. b_height r \<le> height + 1) (cc_blocks (c_store c))))"
    by (simp add: c1 c2)
qed

text \<open>
  The start of the walk back and the walk back itself, for the latest scanned block
  \<open>(lhash, lheight)\<close> and the latest block row \<open>tip\<close>: when the scanned height is not
  below the height of \<open>tip\<close>, the start is one below \<open>tip\<close> with the block hash the
  scanned rows record there.
\<close>

definition rollbackPoint ::
  "(string \<Rightarrow> string) \<Rightarrow> string \<Rightarrow> int \<Rightarrow> block_row
     \<Rightarrow> (ccstore, string \<times> int \<times> block_row list) action" where
  "rollbackPoint prevHashOf lhash lheight tip =
     andThen
       (if lheight \<ge> b_height tip
        then andThen (queryAsync ''select.ccScannedTxIds.blockHash''
                        (select_ccScannedTxIds_blockHash (b_height tip - 1)))
               (\<lambda>hs c. case hs of
                          [] \<Rightarrow> Inl (TypeError, c_sent c)
                        | None # hs' \<Rightarrow> Inl (TypeError, c_sent c)
                        | Some h # hs' \<Rightarrow> Inr ((h, b_height tip - 1), c))
        else resolve (lhash, lheight))
       (\<lambda>start. walkBack prevHashOf (fst start) (snd start))"

text \<open>
  The first part of the transaction of \<open>updateBlocks\<close>, up to the statement that marks
  the scanned rows unconfirmed. The result is \<open>None\<close> when the rescanner is level with
  the scanner (\<open>running = false\<close>), else the rows of the block to scan next.
\<close>

definition updateBlocks_rewind ::
  "(string \<Rightarrow> string) \<Rightarrow> (ccstore, block_row list option) action" where
  "updateBlocks_rewind prevHashOf =
     andThen (queryAsync ''select.ccScannedTxIds.latestBlock'' select_ccScannedTxIds_latestBlock)
       (\<lambda>lrows.
          case lrows of
            [] \<Rightarrow>
              andThen (queryAsync ''select.blocks.txIdsByHeight'' (select_blocks_txIdsByHeight 0))
                (\<lambda>rows. resolve (Some rows))
          | (None, lheight) # lrows' \<Rightarrow> (\<lambda>c. Inl (TypeError, c_sent c))
          | (Some lhash, lheight) # lrows' \<Rightarrow>
              andThen (queryAsync ''select.blocks.latest'' select_cc_blocks_latest)
                (\<lambda>tops.
                   case tops of
                     [] \<Rightarrow> (\<lambda>c. Inl (TypeError, c_sent c))
                   | tip # tops' \<Rightarrow>
                       if lhash = b_hash tip then resolve None
                       else
                         andThen (rollbackPoint prevHashOf lhash lheight tip)
                           (\<lambda>point.
                              andThen
                                (if fst point \<noteq> lhash
                                 then queryAsync ''update.ccScannedTxIds.makeUnconfirmed''
                                        (update_ccScannedTxIds_makeUnconfirmed (fst (snd point)))
                                 else resolve ())
                                (\<lambda>u. resolve (Some (snd (snd point)))))))"

text \<open>The slices \<open>txIds.slice(i * 64, (i + 1) * 64)\<close> for \<open>i\<close> in \<open>_.range(txIds.length / 64)\<close>.\<close>

definition txIds_slices :: "string \<Rightarrow> string list" where
  "txIds_slices txIds =
     map (\<lambda>i. take 64 (drop (i * 64) txIds)) [0 ..< (length txIds + 63) div 64]"

text \<open>
  The second part: every txid of the block is added as confirmed; those that were
  scanned already are collected and marked confirmed under the block.
\<close>

fun scanTxIds ::
  "string list \<Rightarrow> string \<Rightarrow> int \<Rightarrow> string list \<Rightarrow> string list \<Rightarrow> (ccstore, string list) action" where
  "scanTxIds cdefClss hash height [] toUpdate c = Inr (toUpdate, c)"
| "scanTxIds cdefClss hash height (txId # txIds) toUpdate c =
     (case sync_addTx cdefClss txId (Some (hash, height)) c of
        Inl e \<Rightarrow> Inl e
      | Inr (added, c') \<Rightarrow>
          scanTxIds cdefClss hash height txIds (if added then toUpdate else toUpdate @ [txId]) c')"

definition updateBlocks_scan :: "string list \<Rightarrow> block_row \<Rightarrow> (ccstore, unit) action" where
  "updateBlocks_scan cdefClss row =
     andThen (scanTxIds cdefClss (b_hash row) (b_height row) (txIds_slices (b_txids row)) [])
       (\<lambda>toUpdate.
          queryAsync ''update.ccScannedTxIds.makeConfirmed''
            (update_ccScannedTxIds_makeConfirmed
               (map hex_arg (filter (\<lambda>txId. txId \<noteq> []) toUpdate))
               (hex_arg (b_hash row)) (b_height row)))"

text \<open>
  The whole body of the transaction of \<open>updateBlocks\<close>; the result is the value of
  \<open>running\<close> afterwards.
\<close>

definition updateBlocks_body :: "(string \<Rightarrow> string) \<Rightarrow> string list \<Rightarrow> (ccstore, bool) action" where
  "updateBlocks_body prevHashOf cdefClss =
     andThen (updateBlocks_rewind prevHashOf)
       (\<lambda>r. case r of
               None \<Rightarrow> resolve False
             | Some rows \<Rightarrow>
                 (case rows of
                    [] \<Rightarrow> (\<lambda>c. Inl (TypeError, c_sent c))
                  | row # rows' \<Rightarrow>
                      andThen (updateBlocks_scan cdefClss row) (\<lambda>u. resolve True)))"

text \<open>One pass of the loop \<open>while (running)\<close>: the body in a transaction.\<close>

definition updateBlocks_pass ::
  "nat \<Rightarrow> (string \<Rightarrow> bool) \<Rightarrow> (string \<Rightarrow> string) \<Rightarrow> string list \<Rightarrow> ccstore
     \<Rightarrow> (error + bool) \<times> ccstore \<times> event list" where
  "updateBlocks_pass n flt prevHashOf cdefClss s =
     executeTransaction n flt (updateBlocks_body prevHashOf cdefClss) s"

section \<open>Properties of the service\<close>

lemma escape_undefined: "escape JUndefined = ''undefined''"
  by (simp add: escape_def escape_char_def escape_kept_def)

lemma js_get_absent: "k \<notin> fst ` set fs \<Longrightarrow> js_get (JObj fs) k = JUndefined"
  by (simp add: map_of_eq_None_iff [THEN iffD2])

text \<open>
  C10. For every call \<open>sendTxResponse(id, err, opts)\<close> the published status is
  \<open>success\<close> exactly when \<open>err\<close> is \<open>null\<close> and \<open>fail\<close> otherwise, in particular for
  an undefined \<open>err\<close>; when \<open>err\<close> is \<open>null\<close> or an object without the property
  \<open>message\<close>, the message field of the payload is the string \<open>undefined\<close>.
\<close>

theorem sendTxResponse_status_message:
  "(js_get (ev_payload (sendTxResponse i err opts)) ''status'' = JStr ''success'' \<longleftrightarrow> err = JNull)
   \<and> (js_get (ev_payload (sendTxResponse i err opts)) ''status'' = JStr ''fail'' \<longleftrightarrow> err \<noteq> JNull)
   \<and> js_get (ev_payload (sendTxResponse i JUndefined opts)) ''status'' = JStr ''fail''
   \<and> js_get (ev_payload (sendTxResponse i JNull opts)) ''message'' = JStr ''undefined''
   \<and> (''message'' \<notin> fst ` set fs \<longrightarrow>
        js_get (ev_payload (sendTxResponse i (JObj fs) opts)) ''message'' = JStr ''undefined'')"
proof -
  have "''message'' \<notin> fst ` set fs \<Longrightarrow>
        js_get (ev_payload (sendTxResponse i (JObj fs) opts)) ''message'' = JStr ''undefined''"
    using js_get_absent [of "''message''" fs]
    by (simp add: sendTxResponse_def notify_def escape_undefined)
  then show ?thesis
    by (simp add: sendTxResponse_def notify_def escape_undefined)
qed

theorem sendTxResponse_status_message_witness:
  "''message'' \<notin> fst ` set [(''code'', JNum 1)]
   \<and> js_get (ev_payload (sendTxResponse (JStr ''7'') (JObj [(''code'', JNum 1)]) JUndefined))
         ''message'' = JStr ''undefined''
   \<and> js_get (ev_payload (sendTxResponse (JStr ''7'') (JObj [(''code'', JNum 1)]) JUndefined))
         ''status'' = JStr ''fail''"
  using sendTxResponse_status_message
    [of "JStr ''7''" "JObj [(''code'', JNum 1)]" JUndefined "[(''code'', JNum 1)]"]
  by simp

section \<open>Properties of the registry of orphans\<close>

lemma array_of_simps: "array_of None = []" "array_of (Some xs) = xs"
  by (simp_all add: array_of_def)

lemma set_uniq: "set (uniq xs) = set xs"
  by (simp add: uniq_def)

lemma set_union_arrays: "set (union_arrays a ys) = set (array_of a) \<union> set ys"
  by (simp add: union_arrays_def set_uniq)

lemma set_without: "set (without a v) = set (array_of a) - {v}"
  by (auto simp: without_def)

lemma orphans_fold:
  "set (array_of (fold (\<lambda>dep m. m(dep \<mapsto> union_arrays (m dep) [txid])) ds m p)) =
     (if p \<in> set ds then insert txid (set (array_of (m p))) else set (array_of (m p)))"
proof (induction ds arbitrary: m)
  case Nil
  then show ?case by simp
next
  case (Cons d ds)
  let ?f = "\<lambda>dep m. m(dep \<mapsto> union_arrays (m dep) [txid])"
  have step: "fold ?f (d # ds) m = fold ?f ds (m(d \<mapsto> union_arrays (m d) [txid]))"
    by (simp only: fold_Cons comp_apply)
  have first: "set (array_of ((m(d \<mapsto> union_arrays (m d) [txid])) p)) =
      (if p = d then insert txid (set (array_of (m p))) else set (array_of (m p)))"
    by (simp add: set_union_arrays array_of_simps)
  show ?case
    unfolding step Cons.IH first by auto
qed

lemma symmetric_markOrphaned:
  assumes "symmetric reg" and "set (array_of (deps reg txid)) \<subseteq> set ds"
  shows "symmetric (markOrphaned txid ds reg)"
  unfolding symmetric_def
proof (intro allI)
  fix c p
  have sym: "c \<in> set (array_of (orphans reg p)) \<longleftrightarrow> p \<in> set (array_of (deps reg c))"
    using assms(1) by (simp add: symmetric_def)
  show "c \<in> set (array_of (orphans (markOrphaned txid ds reg) p)) \<longleftrightarrow>
        p \<in> set (array_of (deps (markOrphaned txid ds reg) c))"
  proof (cases "c = txid")
    case True
    then show ?thesis
      using sym assms(2) by (auto simp: markOrphaned_def orphans_fold array_of_simps)
  next
    case False
    then show ?thesis
      using sym by (auto simp: markOrphaned_def orphans_fold)
  qed
qed

lemma importOrphaned_loop_deps:
  "set (array_of (fst (importOrphaned_loop p os d sched) c)) =
     (if c \<in> set os then set (array_of (d c)) - {p} else set (array_of (d c)))"
proof (induction os arbitrary: d sched)
  case Nil
  then show ?case by simp
next
  case (Cons orphaned os)
  show ?case
  proof (cases "without (d orphaned) p = []")
    case True
    then have "set (array_of (d orphaned)) - {p} = {}"
      using set_without [of "d orphaned" p] by simp
    with True show ?thesis
      by (auto simp: Cons.IH array_of_simps)
  next
    case False
    then show ?thesis
      using set_without [of "d orphaned" p]
      by (auto simp: Cons.IH array_of_simps)
  qed
qed

lemma symmetric_importOrphaned:
  assumes "symmetric reg"
  shows "symmetric (fst (importOrphaned p reg))"
proof (cases "orphans reg p")
  case None
  then show ?thesis using assms by (simp add: importOrphaned_def)
next
  case (Some os)
  have sym: "\<And>c q. c \<in> set (array_of (orphans reg q)) \<longleftrightarrow> q \<in> set (array_of (deps reg c))"
    using assms by (simp add: symmetric_def)
  have os: "\<And>c. c \<in> set os \<longleftrightarrow> p \<in> set (array_of (deps reg c))"
    using sym [of _ p] Some by (simp add: array_of_simps)
  obtain d sched where loop: "importOrphaned_loop p os (deps reg) [] = (d, sched)"
    by (cases "importOrphaned_loop p os (deps reg) []")
  have res: "fst (importOrphaned p reg) = \<lparr>deps = d, orphans = (orphans reg)(p := None)\<rparr>"
    by (simp add: importOrphaned_def Some loop)
  have d: "\<And>c. set (array_of (d c)) =
      (if c \<in> set os then set (array_of (deps reg c)) - {p} else set (array_of (deps reg c)))"
    using importOrphaned_loop_deps [of p os "deps reg" "[]"] loop by simp
  show ?thesis
    unfolding symmetric_def res
  proof (intro allI)
    fix c q
    show "c \<in> set (array_of (orphans \<lparr>deps = d, orphans = (orphans reg)(p := None)\<rparr> q)) \<longleftrightarrow>
          q \<in> set (array_of (deps \<lparr>deps = d, orphans = (orphans reg)(p := None)\<rparr> c))"
      using sym [of c q] os [of c] d [of c]
      by (auto simp: array_of_simps)
  qed
qed

lemma symmetric_init: "symmetric orphanedTx_init"
  by (simp add: symmetric_def orphanedTx_init_def array_of_simps)

lemma andThen_Inr:
  "andThen m f c = Inr (r, c') \<longleftrightarrow> (\<exists>x c1. m c = Inr (x, c1) \<and> f x c1 = Inr (r, c'))"
  by (auto simp: andThen_def split: sum.splits)

lemma resolve_Inr: "resolve x c = Inr (r, c') \<longleftrightarrow> r = x \<and> c' = c"
  by (auto simp: resolve_def)

lemma importUnconfirmedTx_body_registry:
  assumes "importUnconfirmedTx_body t reg c = Inr ((b, reg'), c')"
  shows "reg' = reg \<or> (\<exists>ds. reg' = markOrphaned (tx_id t) ds reg)"
  using assms
  unfolding importUnconfirmedTx_body_def
  by (auto simp: andThen_Inr resolve_Inr split: if_splits)

lemma importUnconfirmedTx_registry:
  "fst (snd (importUnconfirmedTx n flt t reg s)) = reg
   \<or> (\<exists>ds. fst (snd (importUnconfirmedTx n flt t reg s)) = markOrphaned (tx_id t) ds reg)"
proof (cases "importUnconfirmedTx_body t reg \<lparr>c_id = n, c_store = s, c_sent = [], c_fault = flt\<rparr>")
  case (Inl e)
  then show ?thesis
    by (simp add: importUnconfirmedTx_def executeTransaction_def split: prod.splits)
next
  case (Inr x)
  obtain b reg' c' where x: "x = ((b, reg'), c')" by (metis prod.exhaust)
  from Inr x importUnconfirmedTx_body_registry [of t reg _ b reg' c']
  show ?thesis
    by (auto simp: importUnconfirmedTx_def executeTransaction_def)
qed

lemma without_again: "without (Some (without a p)) p = without a p"
  by (simp add: without_def array_of_simps)

lemma without_None: "without None p = []"
  by (simp add: without_def array_of_simps)

lemma importOrphaned_loop_entry:
  "fst (importOrphaned_loop p os d sched) c =
     (if c \<in> set os
      then (if without (d c) p = [] then None else Some (without (d c) p))
      else d c)"
proof (induction os arbitrary: d sched)
  case Nil
  then show ?case by simp
next
  case (Cons orphaned os)
  show ?case
  proof (cases "without (d orphaned) p = []")
    case True
    then show ?thesis
      by (simp add: Cons.IH without_None)
  next
    case False
    then show ?thesis
      by (simp add: Cons.IH without_again)
  qed
qed

lemma importOrphaned_loop_sched:
  "snd (importOrphaned_loop p os d sched) = sched @ filter (\<lambda>c. without (d c) p = []) os"
proof (induction os arbitrary: d sched)
  case Nil
  then show ?case by simp
next
  case (Cons orphaned os)
  show ?case
  proof (cases "without (d orphaned) p = []")
    case True
    have "filter (\<lambda>c. without ((d(orphaned := None)) c) p = []) os
        = filter (\<lambda>c. without (d c) p = []) os"
      using True by (intro filter_cong) (auto simp: without_None)
    with True show ?thesis
      by (simp add: Cons.IH)
  next
    case False
    have "filter (\<lambda>c. without ((d(orphaned \<mapsto> without (d orphaned) p)) c) p = []) os
        = filter (\<lambda>c. without (d c) p = []) os"
      using False by (intro filter_cong) (auto simp: without_again)
    with False show ?thesis
      by (simp add: Cons.IH)
  qed
qed

lemma importOrphaned_result:
  "importOrphaned p reg =
     (case orphans reg p of
        None \<Rightarrow> (reg, [])
      | Some os \<Rightarrow>
          (\<lparr>deps = (\<lambda>c. if c \<in> set os
                        then (if without (deps reg c) p = [] then None
                              else Some (without (deps reg c) p))
                        else deps reg c),
            orphans = (orphans reg)(p := None)\<rparr>,
           filter (\<lambda>c. without (deps reg c) p = []) os))"
proof (cases "orphans reg p")
  case None
  then show ?thesis by (simp add: importOrphaned_def)
next
  case (Some os)
  obtain d sched where loop: "importOrphaned_loop p os (deps reg) [] = (d, sched)"
    by (cases "importOrphaned_loop p os (deps reg) []")
  have d: "d = (\<lambda>c. if c \<in> set os
                        then (if without (deps reg c) p = [] then None
                              else Some (without (deps reg c) p))
                        else deps reg c)"
    using importOrphaned_loop_entry [of p os "deps reg" "[]"] loop by (intro ext) simp
  have s: "sched = filter (\<lambda>c. without (deps reg c) p = []) os"
    using importOrphaned_loop_sched [of p os "deps reg" "[]"] loop by simp
  show ?thesis
    by (simp add: importOrphaned_def Some loop d s)
qed


lemma markOrphaned_orphans:
  "set (array_of (orphans (markOrphaned txid ds reg) q)) =
     set (array_of (orphans reg q)) \<union> (if q \<in> set ds then {txid} else {})"
  by (simp add: markOrphaned_def orphans_fold)

text \<open>
  C6, amended. On a symmetric registry:

  \<^item> the registration of \<open>txid\<close> with the missing parents \<open>ds\<close> keeps the symmetry when
    every parent recorded in \<open>deps[txid]\<close> is again among \<open>ds\<close>; so \<open>_importUnconfirmedTx\<close>
    keeps it for a transaction that has no entry in \<open>deps\<close>, whatever the store holds and
    whichever statement fails;
  \<^item> the registration overwrites \<open>deps[txid]\<close> with \<open>ds\<close> and only adds \<open>txid\<close> to
    \<open>orphans[q]\<close> for the \<open>q\<close> of \<open>ds\<close>; a parent \<open>q\<close> recorded in \<open>deps[txid]\<close> that is not
    among \<open>ds\<close> keeps the stale entry \<open>txid\<close> in \<open>orphans[q]\<close>, the registry is then no
    longer symmetric, and the entry is gone once \<open>q\<close> is resolved;
  \<^item> the resolution \<open>_importOrphaned(p)\<close> keeps the symmetry, deletes \<open>orphans[p]\<close> and
    leaves the other entries of \<open>orphans\<close> as they are, removes \<open>p\<close> from the \<open>deps\<close> of
    every child that named it, deletes the \<open>deps\<close> of the children left with no parent,
    and schedules exactly those children, in the order of \<open>orphans[p]\<close>.
\<close>

theorem registry_symmetry_preserved:
  assumes "symmetric reg"
  shows "(set (array_of (deps reg txid)) \<subseteq> set ds \<longrightarrow> symmetric (markOrphaned txid ds reg))
       \<and> (deps reg (tx_id t) = None \<longrightarrow>
            symmetric (fst (snd (importUnconfirmedTx n flt t reg s))))
       \<and> deps (markOrphaned txid ds reg) = (deps reg)(txid \<mapsto> ds)
       \<and> set (array_of (orphans (markOrphaned txid ds reg) q)) =
            set (array_of (orphans reg q)) \<union> (if q \<in> set ds then {txid} else {})
       \<and> (q \<in> set (array_of (deps reg txid)) \<and> q \<notin> set ds \<longrightarrow>
            txid \<in> set (array_of (orphans (markOrphaned txid ds reg) q))
            \<and> q \<notin> set (array_of (deps (markOrphaned txid ds reg) txid))
            \<and> \<not> symmetric (markOrphaned txid ds reg)
            \<and> txid \<notin> set (array_of
                  (orphans (fst (importOrphaned q (markOrphaned txid ds reg))) q)))
       \<and> symmetric (fst (importOrphaned p reg))
       \<and> orphans (fst (importOrphaned p reg)) = (orphans reg)(p := None)
       \<and> p \<notin> set (array_of (deps (fst (importOrphaned p reg)) c))
       \<and> deps (fst (importOrphaned p reg)) c =
            (if p \<in> set (array_of (deps reg c))
             then (if without (deps reg c) p = [] then None else Some (without (deps reg c) p))
             else deps reg c)
       \<and> snd (importOrphaned p reg) =
            filter (\<lambda>c. without (deps reg c) p = []) (array_of (orphans reg p))"
proof -
  have sym: "\<And>c q. c \<in> set (array_of (orphans reg q)) \<longleftrightarrow> q \<in> set (array_of (deps reg c))"
    using assms by (simp add: symmetric_def)
  have 1: "set (array_of (deps reg txid)) \<subseteq> set ds \<Longrightarrow> symmetric (markOrphaned txid ds reg)"
    using assms by (rule symmetric_markOrphaned)
  have 2: "deps reg (tx_id t) = None \<Longrightarrow>
      symmetric (fst (snd (importUnconfirmedTx n flt t reg s)))"
  proof -
    assume none: "deps reg (tx_id t) = None"
    from importUnconfirmedTx_registry [of n flt t reg s]
    show ?thesis
    proof
      assume "fst (snd (importUnconfirmedTx n flt t reg s)) = reg"
      with assms show ?thesis by simp
    next
      assume "\<exists>ds. fst (snd (importUnconfirmedTx n flt t reg s)) = markOrphaned (tx_id t) ds reg"
      then obtain ds' where
        "fst (snd (importUnconfirmedTx n flt t reg s)) = markOrphaned (tx_id t) ds' reg" ..
      moreover have "symmetric (markOrphaned (tx_id t) ds' reg)"
        using assms none by (intro symmetric_markOrphaned) (simp_all add: array_of_simps)
      ultimately show ?thesis by simp
    qed
  qed
  have 3: "deps (markOrphaned txid ds reg) = (deps reg)(txid \<mapsto> ds)"
    by (simp add: markOrphaned_def)
  have 5: "q \<in> set (array_of (deps reg txid)) \<and> q \<notin> set ds \<Longrightarrow>
            txid \<in> set (array_of (orphans (markOrphaned txid ds reg) q))
            \<and> q \<notin> set (array_of (deps (markOrphaned txid ds reg) txid))
            \<and> \<not> symmetric (markOrphaned txid ds reg)
            \<and> txid \<notin> set (array_of
                  (orphans (fst (importOrphaned q (markOrphaned txid ds reg))) q))"
  proof -
    assume stale: "q \<in> set (array_of (deps reg txid)) \<and> q \<notin> set ds"
    then have a: "txid \<in> set (array_of (orphans (markOrphaned txid ds reg) q))"
      using sym [of txid q] by (simp add: markOrphaned_orphans)
    have b: "q \<notin> set (array_of (deps (markOrphaned txid ds reg) txid))"
      using stale by (simp add: 3 array_of_simps)
    from a b have c: "\<not> symmetric (markOrphaned txid ds reg)"
      unfolding symmetric_def by blast
    have d: "txid \<notin> set (array_of
                  (orphans (fst (importOrphaned q (markOrphaned txid ds reg))) q))"
      by (simp add: importOrphaned_result array_of_simps split: option.splits)
    from a b c d show ?thesis by blast
  qed
  have 6: "symmetric (fst (importOrphaned p reg))"
    using assms by (rule symmetric_importOrphaned)
  have 7: "orphans (fst (importOrphaned p reg)) = (orphans reg)(p := None)"
    by (auto simp: importOrphaned_result split: option.splits)
  have 9: "deps (fst (importOrphaned p reg)) c =
            (if p \<in> set (array_of (deps reg c))
             then (if without (deps reg c) p = [] then None else Some (without (deps reg c) p))
             else deps reg c)"
    using sym [of c p]
    by (auto simp: importOrphaned_result array_of_simps split: option.splits)
  have 8: "p \<notin> set (array_of (deps (fst (importOrphaned p reg)) c))"
    unfolding 9 using set_without [of "deps reg c" p]
    by (auto simp: array_of_simps)
  have 10: "snd (importOrphaned p reg) =
            filter (\<lambda>c. without (deps reg c) p = []) (array_of (orphans reg p))"
    by (simp add: importOrphaned_result array_of_simps split: option.splits)
  from 1 2 3 5 6 7 8 9 10 markOrphaned_orphans [of txid ds reg q]
  show ?thesis by blast
qed

theorem registry_symmetry_preserved_witness:
  "deps (markOrphaned ''c'' [''a''] orphanedTx_init) ''c'' = Some [''a'']
   \<and> set (array_of (deps (markOrphaned ''c'' [''a''] orphanedTx_init) ''c''))
        \<subseteq> set [''a'', ''b'']
   \<and> symmetric (markOrphaned ''c'' [''a'', ''b''] (markOrphaned ''c'' [''a''] orphanedTx_init))
   \<and> deps (markOrphaned ''c'' [''a''] orphanedTx_init) ''d'' = None
   \<and> symmetric (fst (snd (importUnconfirmedTx 1 (\<lambda>q. False)
        \<lparr>tx_id = ''d'', tx_raw = ''00'',
          tx_inputs = [\<lparr>prevTxId = ''a'', outputIndex = 0\<rparr>], tx_outputs = []\<rparr>
        (markOrphaned ''c'' [''a''] orphanedTx_init)
        \<lparr>blocks = [], transactions = [], history = []\<rparr>)))
   \<and> symmetric (fst (importOrphaned ''a'' (markOrphaned ''c'' [''a''] orphanedTx_init)))
   \<and> deps (fst (importOrphaned ''a'' (markOrphaned ''c'' [''a''] orphanedTx_init))) ''c'' = None
   \<and> snd (importOrphaned ''a'' (markOrphaned ''c'' [''a''] orphanedTx_init)) = [''c'']
   \<and> ''a'' \<in> set (array_of (deps (markOrphaned ''c'' [''a'', ''b''] orphanedTx_init) ''c''))
   \<and> ''a'' \<notin> set [''b'']
   \<and> ''c'' \<in> set (array_of (orphans
        (markOrphaned ''c'' [''b''] (markOrphaned ''c'' [''a'', ''b''] orphanedTx_init)) ''a''))
   \<and> \<not> symmetric (markOrphaned ''c'' [''b''] (markOrphaned ''c'' [''a'', ''b''] orphanedTx_init))
   \<and> deps (fst (importOrphaned ''a'' (markOrphaned ''c'' [''a'', ''b''] orphanedTx_init))) ''c''
        = Some [''b'']
   \<and> snd (importOrphaned ''a'' (markOrphaned ''c'' [''a'', ''b''] orphanedTx_init)) = []"
proof -
  let ?R1 = "markOrphaned ''c'' [''a''] orphanedTx_init"
  let ?R2 = "markOrphaned ''c'' [''a'', ''b''] orphanedTx_init"
  have h1: "symmetric ?R1"
    by (rule symmetric_markOrphaned [OF symmetric_init])
       (simp add: orphanedTx_init_def array_of_simps)
  have h2: "symmetric ?R2"
    by (rule symmetric_markOrphaned [OF symmetric_init])
       (simp add: orphanedTx_init_def array_of_simps)
  have d1: "deps ?R1 ''c'' = Some [''a'']" "deps ?R1 ''d'' = None"
    by (simp_all add: markOrphaned_def orphanedTx_init_def)
  have o1: "array_of (orphans ?R1 ''a'') = [''c'']"
    by (simp add: markOrphaned_def orphanedTx_init_def array_of_simps union_arrays_def uniq_def)
  have d2: "deps ?R2 ''c'' = Some [''a'', ''b'']"
    by (simp add: markOrphaned_def orphanedTx_init_def)
  have o2: "array_of (orphans ?R2 ''a'') = [''c'']"
    by (simp add: markOrphaned_def orphanedTx_init_def array_of_simps union_arrays_def uniq_def)
  have w: "without (Some [''a'']) ''a'' = []" "without (Some [''a'', ''b'']) ''a'' = [''b'']"
    by (simp_all add: without_def array_of_simps)
  note A = registry_symmetry_preserved [OF h1, where txid = "''c''" and ds = "[''a'', ''b'']"
      and t = "\<lparr>tx_id = ''d'', tx_raw = ''00'',
        tx_inputs = [\<lparr>prevTxId = ''a'', outputIndex = 0\<rparr>], tx_outputs = []\<rparr>"
      and n = 1 and flt = "\<lambda>q. False" and s = "\<lparr>blocks = [], transactions = [], history = []\<rparr>"
      and p = "''a''" and c = "''c''" and q = "''b''"]
  note B = registry_symmetry_preserved [OF h2, where txid = "''c''" and ds = "[''b'']"
      and q = "''a''" and p = "''a''" and c = "''c''"]
  from A have a: "symmetric (markOrphaned ''c'' [''a'', ''b''] ?R1)"
      "symmetric (fst (snd (importUnconfirmedTx 1 (\<lambda>q. False)
        \<lparr>tx_id = ''d'', tx_raw = ''00'',
          tx_inputs = [\<lparr>prevTxId = ''a'', outputIndex = 0\<rparr>], tx_outputs = []\<rparr>
        ?R1 \<lparr>blocks = [], transactions = [], history = []\<rparr>)))"
      "symmetric (fst (importOrphaned ''a'' ?R1))"
      "deps (fst (importOrphaned ''a'' ?R1)) ''c'' = None"
      "snd (importOrphaned ''a'' ?R1) = [''c'']"
    by (simp_all add: d1 o1 w array_of_simps)
  from B have b: "''c'' \<in> set (array_of (orphans (markOrphaned ''c'' [''b''] ?R2) ''a''))"
      "\<not> symmetric (markOrphaned ''c'' [''b''] ?R2)"
      "deps (fst (importOrphaned ''a'' ?R2)) ''c'' = Some [''b'']"
      "snd (importOrphaned ''a'' ?R2) = []"
    by (simp_all add: d2 o2 w array_of_simps)
  show ?thesis
    using a b by (simp add: array_of_simps d1 d2)
qed

section \<open>Properties of the import of unconfirmed transactions\<close>

lemma bytea_hex_arg: "bytea (hex_arg h) = h"
  by (simp add: bytea_def hex_arg_def)

lemma map_bytea_hex_arg: "map bytea (map hex_arg hs) = hs"
  by (induction hs) (simp_all add: bytea_hex_arg)

lemma forEach_invariant:
  assumes "forEach f xs c = Inr (u, c')"
    and "I c"
    and "\<And>x c1 u1 c2. x \<in> set xs \<Longrightarrow> f x c1 = Inr (u1, c2) \<Longrightarrow> I c1 \<Longrightarrow> I c2"
  shows "I c'"
  using assms
proof (induction xs arbitrary: c)
  case Nil
  then show ?case by simp
next
  case (Cons x xs)
  from Cons.prems(1) obtain u1 c1 where
    step: "f x c = Inr (u1, c1)" and rest: "forEach f xs c1 = Inr (u, c')"
    by (auto split: sum.splits)
  have c1: "I c1" using Cons.prems(3) [of x c u1 c1] step Cons.prems(2) by simp
  show ?case
  proof (rule Cons.IH [OF rest c1])
    fix y k1 v k2
    assume "y \<in> set xs" "f y k1 = Inr (v, k2)" "I k1"
    then show "I k2" using Cons.prems(3) [of y k1 v k2] by simp
  qed
qed

lemma publish_Inr: "publish e c = Inr (u, c') \<longleftrightarrow> c' = c\<lparr>c_sent := c_sent c @ [e]\<rparr>"
  by (auto simp: publish_def)

lemma queryAsync_Inr:
  "queryAsync q stmt c = Inr (r, c') \<longleftrightarrow>
     \<not> c_fault c q \<and> (\<exists>s. stmt (c_store c) = Inr (r, s) \<and> c' = c\<lparr>c_store := s\<rparr>)"
  by (auto simp: queryAsync_def split: sum.splits)






lemma exists_count:
  "length (filter (\<lambda>r. t_txid r = x) rows) \<noteq> 0 \<longleftrightarrow> x \<in> set (map t_txid rows)"
  by (induction rows) auto





lemma difference_existing:
  "difference prev (map t_txid (filter (\<lambda>r. t_txid r \<in> set prev) txs))
     = difference prev (map t_txid txs)"
  unfolding difference_def
  by (rule filter_cong) auto






text \<open>
  C1, evaluated on the code. The import of the new transaction \<open>aa\<close> with one output
  into an empty store succeeds; the notification \<open>addtx\<close> it publishes carries
  \<open>unconfirmed = false\<close> and no options, so it is bound to no client: the call
  \<open>addTx(txid, {client: client})\<close> passes the options object as \<open>isConfirmed\<close>.
\<close>

theorem importUnconfirmedTx_addtx_event:
  "fst (importUnconfirmedTx 1 (\<lambda>q. False)
         \<lparr>tx_id = ''aa'', tx_raw = ''0100'', tx_inputs = [],
           tx_outputs = [\<lparr>satoshis = 5, script = ''76'', addresses = [''addr1'']\<rparr>]\<rparr>
         orphanedTx_init \<lparr>blocks = [], transactions = [], history = []\<rparr>) = True
   \<and> snd (snd (snd (importUnconfirmedTx 1 (\<lambda>q. False)
         \<lparr>tx_id = ''aa'', tx_raw = ''0100'', tx_inputs = [],
           tx_outputs = [\<lparr>satoshis = 5, script = ''76'', addresses = [''addr1'']\<rparr>]\<rparr>
         orphanedTx_init \<lparr>blocks = [], transactions = [], history = []\<rparr>))) =
       [\<lparr>ev_channel = ''broadcastaddress'',
         ev_payload = JObj [(''address'', JStr ''addr1''), (''txId'', JStr ''aa''),
                            (''blockHash'', JNull), (''blockHeight'', JNull)],
         ev_opts = JObj [(''client'', JClient 1)]\<rparr>,
        \<lparr>ev_channel = ''broadcasttx'',
         ev_payload = JObj [(''txId'', JStr ''aa''), (''blockHash'', JNull), (''blockHeight'', JNull)],
         ev_opts = JObj [(''client'', JClient 1)]\<rparr>,
        \<lparr>ev_channel = ''addtx'',
         ev_payload = JObj [(''txId'', JStr ''aa''), (''unconfirmed'', JBool False)],
         ev_opts = JUndefined\<rparr>]
   \<and> ev_client \<lparr>ev_channel = ''addtx'',
         ev_payload = JObj [(''txId'', JStr ''aa''), (''unconfirmed'', JBool False)],
         ev_opts = JUndefined\<rparr> = None"
  by code_simp

section \<open>Properties of the reconciliation of the mempool\<close>

text \<open>
  C2, evaluated on the code. With the unconfirmed transaction \<open>aa\<close> in the store and an
  empty mempool of the node, one pass deletes the rows of \<open>aa\<close> and publishes one
  \<open>removetx\<close> whose txid keeps the prefix of the binary parameter (backslash, x), whose
  field \<open>unconfirmed\<close> is \<open>false\<close> and which is bound to no client: the call
  \<open>removeTx(txid, {client: client})\<close> passes the options object as \<open>isConfirmed\<close>.
\<close>

theorem updateMempool_removetx_event:
  "updateMempool 1 (\<lambda>q. False) []
     \<lparr>blocks = [],
      transactions = [\<lparr>t_txid = ''aa'', t_height = None, t_tx = ''0100''\<rparr>],
      history = [\<lparr>h_address = ''addr1'', h_txid = ''aa'', h_index = 0, h_value = 5,
                  h_script = ''76'', h_height = None, h_input_txid = None,
                  h_input_height = None\<rparr>]\<rparr>
   = (Inr [], \<lparr>blocks = [], transactions = [], history = []\<rparr>,
      [\<lparr>ev_channel = ''removetx'',
        ev_payload = JObj [(''txId'', JStr (CHR 0x5C # ''xaa'')), (''unconfirmed'', JBool False)],
        ev_opts = JUndefined\<rparr>])"
  by code_simp

section \<open>Properties of coinbase inputs\<close>

lemma importUnconfirmedTx_deferred:
  assumes "\<not> flt ''select.transactions.exists''" and "\<not> flt ''select.transactions.existsMany''"
    and "tx_id t \<notin> set (map t_txid (transactions s))"
    and "difference (prevTxIds_of t) (map t_txid (transactions s)) \<noteq> []"
  shows "importUnconfirmedTx n flt t reg s =
         (False, markOrphaned (tx_id t)
                   (difference (prevTxIds_of t) (map t_txid (transactions s))) reg, s, [])"
  using assms exists_count [of "tx_id t" "transactions s"]
    difference_existing [of "prevTxIds_of t" "transactions s"]
  by (simp add: importUnconfirmedTx_def executeTransaction_def importUnconfirmedTx_body_def
        andThen_def queryAsync_def select_transactions_exists_def bytea_hex_arg resolve_def
        select_transactions_existsMany_def)

lemma prev_in_difference:
  assumes "inp \<in> set (tx_inputs t)" and "prevTxId inp \<notin> set known"
  shows "prevTxId inp \<in> set (difference (prevTxIds_of t) known)"
  using assms by (auto simp: difference_def prevTxIds_of_def set_uniq)

text \<open>
  C5, amended. In the import of a block, the input at index 0 with the zero hash and the
  index \<open>0xFFFFFFFF\<close> causes no statement on the history and no notification, so the
  inputs of a coinbase transaction leave the client as it is. The previous txid of
  every input, the zero hash of a coinbase input included, is among the keys locked by
  both importers. The import of an unconfirmed transaction has no test for coinbase
  inputs: an input whose previous txid has no transaction row, whatever it is, makes
  the transaction an orphan registered with that txid as a missing parent.
\<close>

theorem coinbase_input_handling:
  "importBlockInput b height existingTx txid
      (0, \<lparr>prevTxId = ZERO_HASH, outputIndex = 0xFFFFFFFF\<rparr>) c = Inr ((), c)
   \<and> (tx_inputs t = [\<lparr>prevTxId = ZERO_HASH, outputIndex = 0xFFFFFFFF\<rparr>] \<longrightarrow>
        importBlockInputs b height existingTx t c = Inr ((), c))
   \<and> (t \<in> set (blk_transactions b) \<and> inp \<in> set (tx_inputs t) \<longrightarrow>
        prevTxId inp \<in> set (importBlock_keys b))
   \<and> (inp \<in> set (tx_inputs t) \<longrightarrow> prevTxId inp \<in> set (importUnconfirmedTx_keys t))
   \<and> (\<not> flt ''select.transactions.exists'' \<and> \<not> flt ''select.transactions.existsMany''
        \<and> tx_id t \<notin> set (map t_txid (transactions s))
        \<and> inp \<in> set (tx_inputs t) \<and> prevTxId inp \<notin> set (map t_txid (transactions s)) \<longrightarrow>
        \<not> fst (importUnconfirmedTx n flt t reg s)
        \<and> prevTxId inp \<in> set (array_of (deps (fst (snd (importUnconfirmedTx n flt t reg s))) (tx_id t))))"
proof (intro conjI impI)
  show "importBlockInput b height existingTx txid
      (0, \<lparr>prevTxId = ZERO_HASH, outputIndex = 0xFFFFFFFF\<rparr>) c = Inr ((), c)"
    by (simp add: importBlockInput_def skip_coinbase_def resolve_def)
next
  assume "tx_inputs t = [\<lparr>prevTxId = ZERO_HASH, outputIndex = 0xFFFFFFFF\<rparr>]"
  then show "importBlockInputs b height existingTx t c = Inr ((), c)"
    by (simp add: importBlockInputs_def importBlockInput_def skip_coinbase_def resolve_def)
next
  assume "t \<in> set (blk_transactions b) \<and> inp \<in> set (tx_inputs t)"
  then show "prevTxId inp \<in> set (importBlock_keys b)"
    by (auto simp: importBlock_keys_def set_uniq)
next
  assume "inp \<in> set (tx_inputs t)"
  then show "prevTxId inp \<in> set (importUnconfirmedTx_keys t)"
    by (auto simp: importUnconfirmedTx_keys_def prevTxIds_of_def set_uniq)
next
  assume a: "\<not> flt ''select.transactions.exists'' \<and> \<not> flt ''select.transactions.existsMany''
        \<and> tx_id t \<notin> set (map t_txid (transactions s))
        \<and> inp \<in> set (tx_inputs t) \<and> prevTxId inp \<notin> set (map t_txid (transactions s))"
  then have mem: "prevTxId inp \<in> set (difference (prevTxIds_of t) (map t_txid (transactions s)))"
    by (intro prev_in_difference) simp_all
  then have ne: "difference (prevTxIds_of t) (map t_txid (transactions s)) \<noteq> []"
    by auto
  have res: "importUnconfirmedTx n flt t reg s =
         (False, markOrphaned (tx_id t)
                   (difference (prevTxIds_of t) (map t_txid (transactions s))) reg, s, [])"
    using a ne by (intro importUnconfirmedTx_deferred) simp_all
  show "\<not> fst (importUnconfirmedTx n flt t reg s)"
    by (simp add: res)
  show "prevTxId inp \<in> set (array_of (deps (fst (snd (importUnconfirmedTx n flt t reg s))) (tx_id t)))"
    using mem by (simp add: res markOrphaned_def array_of_simps)
qed

text \<open>
  C5, as the code has it. The claim that a coinbase input is left out of the keys that
  are locked and never defers the transaction fails: the zero hash is among the keys
  of the import of a block with a coinbase transaction, and in the import of an
  unconfirmed transaction it is a locked key and a missing parent, so the transaction
  is deferred.
\<close>

theorem coinbase_counterexample:
  "ZERO_HASH \<in> set (importBlock_keys
      \<lparr>blk_hash = ''b1'', blk_header = ''00'',
        blk_transactions = [\<lparr>tx_id = ''cb'', tx_raw = ''01'',
           tx_inputs = [\<lparr>prevTxId = ZERO_HASH, outputIndex = 0xFFFFFFFF\<rparr>],
           tx_outputs = []\<rparr>]\<rparr>)
   \<and> ZERO_HASH \<in> set (importUnconfirmedTx_keys
        \<lparr>tx_id = ''cb'', tx_raw = ''01'',
          tx_inputs = [\<lparr>prevTxId = ZERO_HASH, outputIndex = 0xFFFFFFFF\<rparr>], tx_outputs = []\<rparr>)
   \<and> fst (importUnconfirmedTx 1 (\<lambda>q. False)
        \<lparr>tx_id = ''cb'', tx_raw = ''01'',
          tx_inputs = [\<lparr>prevTxId = ZERO_HASH, outputIndex = 0xFFFFFFFF\<rparr>], tx_outputs = []\<rparr>
        orphanedTx_init \<lparr>blocks = [], transactions = [], history = []\<rparr>) = False
   \<and> deps (fst (snd (importUnconfirmedTx 1 (\<lambda>q. False)
        \<lparr>tx_id = ''cb'', tx_raw = ''01'',
          tx_inputs = [\<lparr>prevTxId = ZERO_HASH, outputIndex = 0xFFFFFFFF\<rparr>], tx_outputs = []\<rparr>
        orphanedTx_init \<lparr>blocks = [], transactions = [], history = []\<rparr>))) ''cb''
       = Some [ZERO_HASH]"
  by code_simp


theorem coinbase_input_handling_witness:
  "tx_inputs \<lparr>tx_id = ''cb'', tx_raw = ''01'',
          tx_inputs = [\<lparr>prevTxId = ZERO_HASH, outputIndex = 0xFFFFFFFF\<rparr>], tx_outputs = []\<rparr>
     = [\<lparr>prevTxId = ZERO_HASH, outputIndex = 0xFFFFFFFF\<rparr>]
   \<and> \<not> (\<lambda>q. False) ''select.transactions.exists''
   \<and> ''cb'' \<notin> set (map t_txid (transactions \<lparr>blocks = [], transactions = [], history = []\<rparr>))
   \<and> ZERO_HASH \<notin> set (map t_txid (transactions \<lparr>blocks = [], transactions = [], history = []\<rparr>))
   \<and> importBlockInputs \<lparr>blk_hash = ''b1'', blk_header = ''00'',
        blk_transactions = [\<lparr>tx_id = ''cb'', tx_raw = ''01'',
           tx_inputs = [\<lparr>prevTxId = ZERO_HASH, outputIndex = 0xFFFFFFFF\<rparr>],
           tx_outputs = []\<rparr>]\<rparr> 0 []
        \<lparr>tx_id = ''cb'', tx_raw = ''01'',
          tx_inputs = [\<lparr>prevTxId = ZERO_HASH, outputIndex = 0xFFFFFFFF\<rparr>], tx_outputs = []\<rparr>
        \<lparr>c_id = 1, c_store = \<lparr>blocks = [], transactions = [], history = []\<rparr>, c_sent = [],
          c_fault = (\<lambda>q. False)\<rparr>
       = Inr ((), \<lparr>c_id = 1, c_store = \<lparr>blocks = [], transactions = [], history = []\<rparr>,
                   c_sent = [], c_fault = (\<lambda>q. False)\<rparr>)
   \<and> ZERO_HASH \<in> set (importBlock_keys \<lparr>blk_hash = ''b1'', blk_header = ''00'',
        blk_transactions = [\<lparr>tx_id = ''cb'', tx_raw = ''01'',
           tx_inputs = [\<lparr>prevTxId = ZERO_HASH, outputIndex = 0xFFFFFFFF\<rparr>],
           tx_outputs = []\<rparr>]\<rparr>)
   \<and> \<not> fst (importUnconfirmedTx 1 (\<lambda>q. False)
        \<lparr>tx_id = ''cb'', tx_raw = ''01'',
          tx_inputs = [\<lparr>prevTxId = ZERO_HASH, outputIndex = 0xFFFFFFFF\<rparr>], tx_outputs = []\<rparr>
        orphanedTx_init \<lparr>blocks = [], transactions = [], history = []\<rparr>)"
  using coinbase_input_handling [of
      "\<lparr>blk_hash = ''b1'', blk_header = ''00'',
        blk_transactions = [\<lparr>tx_id = ''cb'', tx_raw = ''01'',
           tx_inputs = [\<lparr>prevTxId = ZERO_HASH, outputIndex = 0xFFFFFFFF\<rparr>],
           tx_outputs = []\<rparr>]\<rparr>" 0 "[]" "''cb''"
      "\<lparr>c_id = 1, c_store = \<lparr>blocks = [], transactions = [], history = []\<rparr>, c_sent = [],
          c_fault = (\<lambda>q. False)\<rparr>"
      "\<lparr>tx_id = ''cb'', tx_raw = ''01'',
          tx_inputs = [\<lparr>prevTxId = ZERO_HASH, outputIndex = 0xFFFFFFFF\<rparr>], tx_outputs = []\<rparr>"
      "\<lparr>prevTxId = ZERO_HASH, outputIndex = 0xFFFFFFFF\<rparr>"
      "\<lambda>q. False" "\<lparr>blocks = [], transactions = [], history = []\<rparr>" 1 orphanedTx_init]
  by simp

section \<open>The registry across two imports\<close>

text \<open>
  C6, as the code has it. The claim that the registration always keeps the registry
  symmetric fails. The transaction \<open>c\<close> spends outputs of \<open>a\<close> and \<open>b\<close>. Its first import,
  into an empty store, registers it with both parents and leaves a symmetric registry.
  Its second import, when the transaction row of \<open>a\<close> has arrived and \<open>a\<close> has not been
  resolved yet, registers it with \<open>b\<close> alone: \<open>c\<close> stays in \<open>orphans[a]\<close> although \<open>a\<close>
  has left \<open>deps[c]\<close>.
\<close>

theorem registry_symmetry_counterexample:
  "symmetric (fst (snd (importUnconfirmedTx 1 (\<lambda>q. False)
      \<lparr>tx_id = ''c'', tx_raw = ''00'',
        tx_inputs = [\<lparr>prevTxId = ''a'', outputIndex = 0\<rparr>, \<lparr>prevTxId = ''b'', outputIndex = 0\<rparr>],
        tx_outputs = []\<rparr>
      orphanedTx_init \<lparr>blocks = [], transactions = [], history = []\<rparr>)))
   \<and> \<not> symmetric (fst (snd (importUnconfirmedTx 2 (\<lambda>q. False)
      \<lparr>tx_id = ''c'', tx_raw = ''00'',
        tx_inputs = [\<lparr>prevTxId = ''a'', outputIndex = 0\<rparr>, \<lparr>prevTxId = ''b'', outputIndex = 0\<rparr>],
        tx_outputs = []\<rparr>
      (fst (snd (importUnconfirmedTx 1 (\<lambda>q. False)
         \<lparr>tx_id = ''c'', tx_raw = ''00'',
           tx_inputs = [\<lparr>prevTxId = ''a'', outputIndex = 0\<rparr>, \<lparr>prevTxId = ''b'', outputIndex = 0\<rparr>],
           tx_outputs = []\<rparr>
         orphanedTx_init \<lparr>blocks = [], transactions = [], history = []\<rparr>)))
      \<lparr>blocks = [], transactions = [\<lparr>t_txid = ''a'', t_height = None, t_tx = ''01''\<rparr>],
        history = []\<rparr>)))"
proof -
  let ?t = "\<lparr>tx_id = ''c'', tx_raw = ''00'',
        tx_inputs = [\<lparr>prevTxId = ''a'', outputIndex = 0\<rparr>, \<lparr>prevTxId = ''b'', outputIndex = 0\<rparr>],
        tx_outputs = []\<rparr>"
  let ?r1 = "markOrphaned ''c'' [''a'', ''b''] orphanedTx_init"
  have first: "importUnconfirmedTx 1 (\<lambda>q. False) ?t orphanedTx_init
        \<lparr>blocks = [], transactions = [], history = []\<rparr>
      = (False, ?r1, \<lparr>blocks = [], transactions = [], history = []\<rparr>, [])"
    using importUnconfirmedTx_deferred [of "\<lambda>q. False" ?t
        "\<lparr>blocks = [], transactions = [], history = []\<rparr>" 1 orphanedTx_init]
    by (simp add: difference_def prevTxIds_of_def uniq_def)
  have second: "importUnconfirmedTx 2 (\<lambda>q. False) ?t ?r1
        \<lparr>blocks = [], transactions = [\<lparr>t_txid = ''a'', t_height = None, t_tx = ''01''\<rparr>],
          history = []\<rparr>
      = (False, markOrphaned ''c'' [''b''] ?r1,
         \<lparr>blocks = [], transactions = [\<lparr>t_txid = ''a'', t_height = None, t_tx = ''01''\<rparr>],
          history = []\<rparr>, [])"
    using importUnconfirmedTx_deferred [of "\<lambda>q. False" ?t
        "\<lparr>blocks = [], transactions = [\<lparr>t_txid = ''a'', t_height = None, t_tx = ''01''\<rparr>],
          history = []\<rparr>" 2 ?r1]
    by (simp add: difference_def prevTxIds_of_def uniq_def)
  have a: "symmetric ?r1"
    by (rule symmetric_markOrphaned [OF symmetric_init])
       (simp add: orphanedTx_init_def array_of_simps)
  have "''c'' \<in> set (array_of (orphans (markOrphaned ''c'' [''b''] ?r1) ''a''))"
    by (simp add: markOrphaned_def orphanedTx_init_def array_of_simps union_arrays_def uniq_def)
  moreover have "''a'' \<notin> set (array_of (deps (markOrphaned ''c'' [''b''] ?r1) ''c''))"
    by (simp add: markOrphaned_def orphanedTx_init_def array_of_simps)
  ultimately have b: "\<not> symmetric (markOrphaned ''c'' [''b''] ?r1)"
    unfolding symmetric_def by blast
  show ?thesis
    unfolding first fst_conv snd_conv second
    using a b by (rule conjI)
qed

section \<open>Properties of the rollback\<close>

lemma opts_client_sent [simp]: "opts_client (c\<lparr>c_sent := x\<rparr>) = opts_client c"
  by (simp add: opts_client_def)

lemma opts_client_store [simp]: "opts_client (c\<lparr>c_store := x\<rparr>) = opts_client c"
  by (simp add: opts_client_def)

lemma forEach_publish:
  assumes "\<And>row c x. g row (c\<lparr>c_sent := x\<rparr>) = g row c"
  shows "forEach (\<lambda>row c. publish (g row c) c) rows c
     = Inr ((), c\<lparr>c_sent := c_sent c @ map (\<lambda>row. g row c) rows\<rparr>)"
proof (induction rows arbitrary: c)
  case Nil
  then show ?case by simp
next
  case (Cons row rows)
  have step: "publish (g row c) c = Inr ((), c\<lparr>c_sent := c_sent c @ [g row c]\<rparr>)"
    by (simp add: publish_def)
  show ?case
    by (simp add: step Cons.IH assms)
qed

lemma ev_client_removeBlock: "ev_client (removeBlock h (JObj [(''client'', JClient n)])) = Some n"
  by (simp add: ev_client_def removeBlock_def notify_def)

lemma reorg_body_result:
  "reorg_body h \<lparr>c_id = n, c_store = s, c_sent = [], c_fault = flt\<rparr> =
     (if flt ''select.fromHeight'' then Inl (DbError ''select.fromHeight'', [])
      else if flt ''delete.blocks.fromHeight'' then Inl (DbError ''delete.blocks.fromHeight'', [])
      else if flt ''update.transactions.makeUnconfirmed''
        then Inl (DbError ''update.transactions.makeUnconfirmed'', [])
      else if flt ''update.history.makeOutputsUnconfirmed''
        then Inl (DbError ''update.history.makeOutputsUnconfirmed'', [])
      else if flt ''update.history.makeInputsUnconfirmed''
        then Inl (DbError ''update.history.makeInputsUnconfirmed'', [])
      else getLatest \<lparr>c_id = n,
              c_store = s\<lparr>blocks := filter (\<lambda>r. \<not> h - 1 < b_height r) (blocks s),
                transactions :=
                  map (\<lambda>r. if above (h - 1) (t_height r) then r\<lparr>t_height := None\<rparr> else r)
                    (transactions s),
                history :=
                  map (\<lambda>r. if above (h - 1) (h_input_height r)
                           then r\<lparr>h_input_height := None\<rparr> else r)
                    (map (\<lambda>r. if above (h - 1) (h_height r) then r\<lparr>h_height := None\<rparr> else r)
                       (history s))\<rparr>,
              c_sent = map (\<lambda>row. removeBlock (b_hash row) (JObj [(''client'', JClient n)]))
                         (filter (\<lambda>r. h - 1 < b_height r) (blocks s)),
              c_fault = flt\<rparr>)"
  by (simp add: reorg_body_def andThen_def queryAsync_def select_fromHeight_def
        delete_blocks_fromHeight_def update_transactions_makeUnconfirmed_def
        update_history_makeOutputsUnconfirmed_def update_history_makeInputsUnconfirmed_def
        forEach_publish)
     (simp add: opts_client_def)

lemma getLatest_result:
  "getLatest c =
     (if c_fault c ''select.blocks.latest'' then Inl (DbError ''select.blocks.latest'', c_sent c)
      else Inr (case fst (projr (select_blocks_latest (c_store c))) of
                  [] \<Rightarrow> (ZERO_HASH, - 1) | row # _ \<Rightarrow> (b_hash row, b_height row), c))"
  by (simp add: getLatest_def andThen_def queryAsync_def select_blocks_latest_def resolve_def
        split: list.splits)


lemma reorg_result:
  "reorg n flt h s =
     (case reorg_body h \<lparr>c_id = n, c_store = s, c_sent = [], c_fault = flt\<rparr> of
        Inr (r, c) \<Rightarrow> (Inr r, c_store c, c_sent c)
      | Inl (e, sent) \<Rightarrow> (Inl e, s, filter (\<lambda>ev. ev_client ev \<noteq> Some n) sent))"
  by (simp add: reorg_def executeTransaction_def)

lemma filter_removeBlock:
  "filter (\<lambda>ev. ev_client ev \<noteq> Some n)
     (map (\<lambda>row. removeBlock (b_hash row) (JObj [(''client'', JClient n)])) rows) = []"
  by (induction rows) (simp_all add: ev_client_removeBlock)

lemma list_all_removeBlock:
  "list_all (\<lambda>ev. ev_client ev = Some n)
     (map (\<lambda>row. removeBlock (b_hash row) (JObj [(''client'', JClient n)])) rows)"
  by (induction rows) (simp_all add: ev_client_removeBlock)

text \<open>
  The rollback with the parameter \<open>f\<close> in its statements. When it succeeds, the block
  rows with a height above \<open>f\<close> are deleted and the others kept, one \<open>removeblock\<close> with
  the hash of each deleted block is published, the height is null on every transaction
  row and on every history row whose height was above \<open>f\<close>, the input height is null
  on every history row whose input height was above \<open>f\<close>, and nothing else changes.
  When a statement fails, the store is the one before the rollback and no notification
  is delivered. Every notification is bound to the client of the transaction, and the
  rollback succeeds when no statement fails.
\<close>

lemma reorg_rolls_back_above:
  "(case reorg n flt (f + 1) s of
      (Inr latest, s', evs) \<Rightarrow>
         blocks s' = filter (\<lambda>r. \<not> f < b_height r) (blocks s)
       \<and> evs = map (\<lambda>r. removeBlock (b_hash r) (JObj [(''client'', JClient n)]))
                  (filter (\<lambda>r. f < b_height r) (blocks s))
       \<and> transactions s' =
           map (\<lambda>r. r\<lparr>t_height := if above f (t_height r) then None else t_height r\<rparr>)
             (transactions s)
       \<and> history s' =
           map (\<lambda>r. r\<lparr>h_height := if above f (h_height r) then None else h_height r,
                      h_input_height :=
                        if above f (h_input_height r) then None else h_input_height r\<rparr>)
             (history s)
    | (Inl e, s', evs) \<Rightarrow> s' = s \<and> evs = [])
   \<and> list_all (\<lambda>ev. ev_client ev = Some n) (snd (snd (reorg n flt (f + 1) s)))
   \<and> ((\<forall>q. \<not> flt q) \<longrightarrow> isl (fst (reorg n flt (f + 1) s)) = False)"
  by (simp add: reorg_result reorg_body_result getLatest_result filter_removeBlock
        list_all_removeBlock comp_def)

text \<open>
  C7, evaluated on the code, on the scenario S2 of the spec. The store holds the blocks
  \<open>b0\<close> at height 0 and \<open>b1a\<close> at height 1; the node has \<open>b0\<close>, \<open>b1b\<close>, \<open>b2b\<close>, so the
  fork height is 0: the search stops at \<open>latest = (b0, 0)\<close>, the last block common to
  the store and the node. The rollback then runs with \<open>latest.height - 1 = -1\<close>: it
  deletes the block row of \<open>b0\<close> as well as that of \<open>b1a\<close>, publishes \<open>removeblock\<close> for
  both, and sets to null the height of the transaction \<open>t0\<close> of \<open>b0\<close>. The import that
  follows puts \<open>b1b\<close> at height 1, the next turn \<open>b2b\<close> at height 2: the block row of
  height 0 and the height of \<open>t0\<close> are not restored.
\<close>

theorem blockImport_step_reorg_depth_one:
  "blockImport_step 1 (\<lambda>q. False)
      (\<lambda>h. if h = 1 then Inr \<lparr>blk_hash = ''b1b'', blk_header = ''b0'', blk_transactions = []\<rparr>
           else if h = 2 then Inr \<lparr>blk_hash = ''b2b'', blk_header = ''b1b'', blk_transactions = []\<rparr>
           else Inl (OtherError ''Block height out of range''))
      (\<lambda>header. header) (''b1a'', 1)
      \<lparr>blocks = [\<lparr>b_height = 0, b_hash = ''b0'', b_header = ''00'', b_txids = ''t0''\<rparr>,
                  \<lparr>b_height = 1, b_hash = ''b1a'', b_header = ''b0'', b_txids = ''t1''\<rparr>],
        transactions = [\<lparr>t_txid = ''t0'', t_height = Some 0, t_tx = ''00''\<rparr>,
                        \<lparr>t_txid = ''t1'', t_height = Some 1, t_tx = ''01''\<rparr>],
        history = []\<rparr>
   = (Inr (''b1b'', 1),
      \<lparr>blocks = [\<lparr>b_height = 1, b_hash = ''b1b'', b_header = ''b0'', b_txids = []\<rparr>],
        transactions = [\<lparr>t_txid = ''t0'', t_height = None, t_tx = ''00''\<rparr>,
                        \<lparr>t_txid = ''t1'', t_height = None, t_tx = ''01''\<rparr>],
        history = []\<rparr>,
      [removeBlock ''b0'' (JObj [(''client'', JClient 1)]),
       removeBlock ''b1a'' (JObj [(''client'', JClient 1)]),
       broadcastBlock ''b1b'' 1 (JObj [(''client'', JClient 1)]),
       addBlock ''b1b'' (JObj [(''client'', JClient 1)])])
   \<and> findLatest (\<lambda>q. False)
      (\<lambda>h. if h = 1 then Inr \<lparr>blk_hash = ''b1b'', blk_header = ''b0'', blk_transactions = []\<rparr>
           else if h = 2 then Inr \<lparr>blk_hash = ''b2b'', blk_header = ''b1b'', blk_transactions = []\<rparr>
           else Inl (OtherError ''Block height out of range''))
      (\<lambda>header. header)
      \<lparr>blocks = [\<lparr>b_height = 0, b_hash = ''b0'', b_header = ''00'', b_txids = ''t0''\<rparr>,
                  \<lparr>b_height = 1, b_hash = ''b1a'', b_header = ''b0'', b_txids = ''t1''\<rparr>],
        transactions = [\<lparr>t_txid = ''t0'', t_height = Some 0, t_tx = ''00''\<rparr>,
                        \<lparr>t_txid = ''t1'', t_height = Some 1, t_tx = ''01''\<rparr>],
        history = []\<rparr> (''b1a'', 1)
     = Inr ((''b0'', 0), \<lparr>blk_hash = ''b1b'', blk_header = ''b0'', blk_transactions = []\<rparr>)
   \<and> blockImport_step 2 (\<lambda>q. False)
      (\<lambda>h. if h = 1 then Inr \<lparr>blk_hash = ''b1b'', blk_header = ''b0'', blk_transactions = []\<rparr>
           else if h = 2 then Inr \<lparr>blk_hash = ''b2b'', blk_header = ''b1b'', blk_transactions = []\<rparr>
           else Inl (OtherError ''Block height out of range''))
      (\<lambda>header. header) (''b1b'', 1)
      \<lparr>blocks = [\<lparr>b_height = 1, b_hash = ''b1b'', b_header = ''b0'', b_txids = []\<rparr>],
        transactions = [\<lparr>t_txid = ''t0'', t_height = None, t_tx = ''00''\<rparr>,
                        \<lparr>t_txid = ''t1'', t_height = None, t_tx = ''01''\<rparr>],
        history = []\<rparr>
   = (Inr (''b2b'', 2),
      \<lparr>blocks = [\<lparr>b_height = 1, b_hash = ''b1b'', b_header = ''b0'', b_txids = []\<rparr>,
                  \<lparr>b_height = 2, b_hash = ''b2b'', b_header = ''b1b'', b_txids = []\<rparr>],
        transactions = [\<lparr>t_txid = ''t0'', t_height = None, t_tx = ''00''\<rparr>,
                        \<lparr>t_txid = ''t1'', t_height = None, t_tx = ''01''\<rparr>],
        history = []\<rparr>,
      [broadcastBlock ''b2b'' 2 (JObj [(''client'', JClient 2)]),
       addBlock ''b2b'' (JObj [(''client'', JClient 2)])])"
  by code_simp

section \<open>Properties of the import of a block\<close>

lemma forEach_publish_blocks:
  assumes "forEach (\<lambda>row c. publish (g row c) c) rows c = Inr (u, c')"
  shows "blocks (c_store c') = blocks (c_store c)"
  by (rule forEach_invariant [OF assms, where I = "\<lambda>k. blocks (c_store k) = blocks (c_store c)"])
     (auto simp: publish_Inr)

lemma importConfirmedOutput_blocks:
  assumes "importConfirmedOutput b height txid io c = Inr (u, c')"
  shows "blocks (c_store c') = blocks (c_store c)"
  by (rule forEach_invariant [OF assms [unfolded importConfirmedOutput_def],
        where I = "\<lambda>k. blocks (c_store k) = blocks (c_store c)"])
     (auto simp: andThen_Inr queryAsync_Inr publish_Inr insert_history_confirmedOutput_def
           split: if_splits)

lemma forEach_confirmedOutput_blocks:
  assumes "forEach (importConfirmedOutput b height txid) ios c = Inr (u, c')"
  shows "blocks (c_store c') = blocks (c_store c)"
  by (rule forEach_invariant [OF assms, where I = "\<lambda>k. blocks (c_store k) = blocks (c_store c)"])
     (auto dest: importConfirmedOutput_blocks)

lemma importBlockTx_blocks:
  assumes "importBlockTx b height t ex c = Inr (ex', c')"
  shows "blocks (c_store c') = blocks (c_store c)"
  using assms
  unfolding importBlockTx_def
  by (auto simp: andThen_Inr queryAsync_Inr publish_Inr resolve_Inr
        select_transactions_exists_def update_transactions_makeConfirmed_def
        update_history_makeOutputConfirmed_def insert_transactions_confirmed_def
        split: if_splits
        dest!: forEach_publish_blocks forEach_confirmedOutput_blocks)

lemma importBlockTxs_blocks:
  assumes "importBlockTxs b height ts ex c = Inr (ex', c')"
  shows "blocks (c_store c') = blocks (c_store c)"
  using assms
proof (induction ts arbitrary: ex c)
  case Nil
  then show ?case by simp
next
  case (Cons t ts)
  from Cons.prems obtain ex1 c1 where
    1: "importBlockTx b height t ex c = Inr (ex1, c1)"
    and 2: "importBlockTxs b height ts ex1 c1 = Inr (ex', c')"
    by (auto split: sum.splits)
  show ?case
    using importBlockTx_blocks [OF 1] Cons.IH [OF 2] by simp
qed

lemma importBlockInput_blocks:
  assumes "importBlockInput b height ex txid ii c = Inr (u, c')"
  shows "blocks (c_store c') = blocks (c_store c)"
  using assms
  unfolding importBlockInput_def
  by (auto simp: andThen_Inr queryAsync_Inr resolve_Inr
        update_history_makeInputConfirmed_def update_history_addConfirmedInput_def
        split: if_splits dest!: forEach_publish_blocks)

lemma importBlockInputs_blocks:
  assumes "importBlockInputs b height ex t c = Inr (u, c')"
  shows "blocks (c_store c') = blocks (c_store c)"
  by (rule forEach_invariant [OF assms [unfolded importBlockInputs_def],
        where I = "\<lambda>k. blocks (c_store k) = blocks (c_store c)"])
     (auto dest: importBlockInput_blocks)

lemma forEach_importBlockInputs_blocks:
  assumes "forEach (importBlockInputs b height ex) ts c = Inr (u, c')"
  shows "blocks (c_store c') = blocks (c_store c)"
  by (rule forEach_invariant [OF assms, where I = "\<lambda>k. blocks (c_store k) = blocks (c_store c)"])
     (auto dest: importBlockInputs_blocks)

lemma importBlock_height:
  assumes "importBlock b height c = Inr (u, c')"
  shows "height \<in> set (map b_height (blocks (c_store c')))"
proof -
  from assms obtain c1 ex c2 c3 where
    ins: "queryAsync ''insert.blocks.row''
            (insert_blocks_row height (hex_arg (blk_hash b)) (hex_arg (blk_header b))
               (hex_arg (concat (map tx_id (blk_transactions b))))) c = Inr ((), c1)"
    and txs: "importBlockTxs b height (blk_transactions b) [] c1 = Inr (ex, c2)"
    and inps: "forEach (importBlockInputs b height ex) (blk_transactions b) c2 = Inr ((), c3)"
    and last: "c_store c' = c_store c3"
    by (auto simp: importBlock_def andThen_Inr publish_Inr)
  from ins have "height \<in> set (map b_height (blocks (c_store c1)))"
    by (auto simp: queryAsync_Inr insert_blocks_row_def split: if_splits)
  then show ?thesis
    using importBlockTxs_blocks [OF txs] forEach_importBlockInputs_blocks [OF inps] last
    by simp
qed

lemma getLatest_store:
  assumes "getLatest c = Inr (l, c')"
  shows "c' = c"
  using assms
  by (auto simp: getLatest_def andThen_Inr queryAsync_Inr resolve_Inr select_blocks_latest_def
        split: list.splits)

lemma importBlock_again:
  assumes "height \<in> set (map b_height (blocks s))"
  shows "importBlock b height \<lparr>c_id = n, c_store = s, c_sent = [], c_fault = flt\<rparr>
     = Inl (if flt ''insert.blocks.row'' then DbError ''insert.blocks.row''
            else DuplicateKey ''blocks'', [])"
  using assms
  by (simp add: importBlock_def andThen_def queryAsync_def insert_blocks_row_def)

text \<open>
  C9. After an import of a block at a height has been committed, a second import of
  the same block at the same height, whichever client runs it and whichever statement
  fails, leaves the store exactly as the first import left it and delivers no
  notification: the block row of that height is there, the insert of the header is
  rejected on the key of the block rows, and the transaction is rolled back. No row is
  added, so no block, transaction or history row is duplicated.
\<close>

theorem importBlock_idempotent:
  assumes "runImportBlock n flt b height s = (Inr latest, s1, evs)"
  shows "runImportBlock n' flt' b height s1 =
           (Inl (if flt' ''insert.blocks.row'' then DbError ''insert.blocks.row''
                 else DuplicateKey ''blocks''), s1, [])"
proof -
  let ?c = "\<lparr>c_id = n, c_store = s, c_sent = [], c_fault = flt\<rparr>"
  from assms obtain c1 where
    body: "andThen (importBlock b height) (\<lambda>u. getLatest) ?c = Inr (latest, c1)"
    and s1: "s1 = c_store c1"
    by (auto simp: runImportBlock_def executeTransaction_def split: sum.splits prod.splits)
  from body obtain c0 where
    imp: "importBlock b height ?c = Inr ((), c0)" and lat: "getLatest c0 = Inr (latest, c1)"
    by (auto simp: andThen_Inr)
  have "height \<in> set (map b_height (blocks s1))"
    using importBlock_height [OF imp] getLatest_store [OF lat] s1 by simp
  from importBlock_again [OF this, of b n' flt']
  show ?thesis
    by (simp add: runImportBlock_def executeTransaction_def andThen_def)
qed

theorem importBlock_idempotent_witness:
  "runImportBlock 1 (\<lambda>q. False)
     \<lparr>blk_hash = ''b0'', blk_header = ''00'',
       blk_transactions = [\<lparr>tx_id = ''t0'', tx_raw = ''01'',
          tx_inputs = [\<lparr>prevTxId = ZERO_HASH, outputIndex = 0xFFFFFFFF\<rparr>],
          tx_outputs = [\<lparr>satoshis = 50, script = ''76'', addresses = [''a1'']\<rparr>]\<rparr>]\<rparr>
     0 \<lparr>blocks = [], transactions = [], history = []\<rparr>
   = (Inr (''b0'', 0),
      \<lparr>blocks = [\<lparr>b_height = 0, b_hash = ''b0'', b_header = ''00'', b_txids = ''t0''\<rparr>],
        transactions = [\<lparr>t_txid = ''t0'', t_height = Some 0, t_tx = ''01''\<rparr>],
        history = [\<lparr>h_address = ''a1'', h_txid = ''t0'', h_index = 0, h_value = 50,
                    h_script = ''76'', h_height = Some 0, h_input_txid = None,
                    h_input_height = None\<rparr>]\<rparr>,
      [broadcastAddress ''a1'' ''t0'' (JStr ''b0'') (JNum 0) (JObj [(''client'', JClient 1)]),
       broadcastTx ''t0'' (JStr ''b0'') (JNum 0) (JObj [(''client'', JClient 1)]),
       addTx ''t0'' (JObj [(''client'', JClient 1)]) JUndefined,
       broadcastBlock ''b0'' 0 (JObj [(''client'', JClient 1)]),
       addBlock ''b0'' (JObj [(''client'', JClient 1)])])
   \<and> runImportBlock 2 (\<lambda>q. False)
     \<lparr>blk_hash = ''b0'', blk_header = ''00'',
       blk_transactions = [\<lparr>tx_id = ''t0'', tx_raw = ''01'',
          tx_inputs = [\<lparr>prevTxId = ZERO_HASH, outputIndex = 0xFFFFFFFF\<rparr>],
          tx_outputs = [\<lparr>satoshis = 50, script = ''76'', addresses = [''a1'']\<rparr>]\<rparr>]\<rparr>
     0 \<lparr>blocks = [\<lparr>b_height = 0, b_hash = ''b0'', b_header = ''00'', b_txids = ''t0''\<rparr>],
        transactions = [\<lparr>t_txid = ''t0'', t_height = Some 0, t_tx = ''01''\<rparr>],
        history = [\<lparr>h_address = ''a1'', h_txid = ''t0'', h_index = 0, h_value = 50,
                    h_script = ''76'', h_height = Some 0, h_input_txid = None,
                    h_input_height = None\<rparr>]\<rparr>
   = (Inl (DuplicateKey ''blocks''),
      \<lparr>blocks = [\<lparr>b_height = 0, b_hash = ''b0'', b_header = ''00'', b_txids = ''t0''\<rparr>],
        transactions = [\<lparr>t_txid = ''t0'', t_height = Some 0, t_tx = ''01''\<rparr>],
        history = [\<lparr>h_address = ''a1'', h_txid = ''t0'', h_index = 0, h_value = 50,
                    h_script = ''76'', h_height = Some 0, h_input_txid = None,
                    h_input_height = None\<rparr>]\<rparr>,
      [])"
proof -
  have first: "runImportBlock 1 (\<lambda>q. False)
     \<lparr>blk_hash = ''b0'', blk_header = ''00'',
       blk_transactions = [\<lparr>tx_id = ''t0'', tx_raw = ''01'',
          tx_inputs = [\<lparr>prevTxId = ZERO_HASH, outputIndex = 0xFFFFFFFF\<rparr>],
          tx_outputs = [\<lparr>satoshis = 50, script = ''76'', addresses = [''a1'']\<rparr>]\<rparr>]\<rparr>
     0 \<lparr>blocks = [], transactions = [], history = []\<rparr>
   = (Inr (''b0'', 0),
      \<lparr>blocks = [\<lparr>b_height = 0, b_hash = ''b0'', b_header = ''00'', b_txids = ''t0''\<rparr>],
        transactions = [\<lparr>t_txid = ''t0'', t_height = Some 0, t_tx = ''01''\<rparr>],
        history = [\<lparr>h_address = ''a1'', h_txid = ''t0'', h_index = 0, h_value = 50,
                    h_script = ''76'', h_height = Some 0, h_input_txid = None,
                    h_input_height = None\<rparr>]\<rparr>,
      [broadcastAddress ''a1'' ''t0'' (JStr ''b0'') (JNum 0) (JObj [(''client'', JClient 1)]),
       broadcastTx ''t0'' (JStr ''b0'') (JNum 0) (JObj [(''client'', JClient 1)]),
       addTx ''t0'' (JObj [(''client'', JClient 1)]) JUndefined,
       broadcastBlock ''b0'' 0 (JObj [(''client'', JClient 1)]),
       addBlock ''b0'' (JObj [(''client'', JClient 1)])])"
    by code_simp
  show ?thesis
    using first importBlock_idempotent [OF first, of 2 "\<lambda>q. False"]
    by simp
qed

section \<open>Properties of the rescanner\<close>

text \<open>
  C8. In a pass of \<open>updateBlocks\<close> in which the latest scanned block \<open>(lhash, lheight)\<close>
  differs from the latest block row and the walk back stops at the rollback point
  \<open>(hash, height)\<close> with \<open>hash\<close> different from \<open>lhash\<close>, the first part of the
  transaction ends with block hash and height set to null on every scanned row whose
  height was above \<open>height\<close>, all other rows and tables being as before; the
  scanning of the next block starts from that state, in which no scanned row has a
  height above \<open>height\<close>.
\<close>

theorem updateBlocks_reorg_marks_unconfirmed:
  assumes latest: "queryAsync ''select.ccScannedTxIds.latestBlock''
                     select_ccScannedTxIds_latestBlock c = Inr ((Some lhash, lheight) # lrows, c)"
    and tip: "queryAsync ''select.blocks.latest'' select_cc_blocks_latest c = Inr (tip # tops, c)"
    and differ: "lhash \<noteq> b_hash tip"
    and point: "rollbackPoint prevHashOf lhash lheight tip c = Inr ((hash, height, row # rows), c)"
    and reorg: "hash \<noteq> lhash"
    and ok: "\<not> c_fault c ''update.ccScannedTxIds.makeUnconfirmed''"
  shows "updateBlocks_rewind prevHashOf c =
           Inr (Some (row # rows),
                c\<lparr>c_store := (c_store c)\<lparr>cc_scanned :=
                   map (\<lambda>r. if above height (s_height r)
                            then r\<lparr>s_blockhash := None, s_height := None\<rparr> else r)
                     (cc_scanned (c_store c))\<rparr>\<rparr>)
       \<and> updateBlocks_body prevHashOf cdefClss c =
           andThen (updateBlocks_scan cdefClss row) (\<lambda>u. resolve True)
             (c\<lparr>c_store := (c_store c)\<lparr>cc_scanned :=
                   map (\<lambda>r. if above height (s_height r)
                            then r\<lparr>s_blockhash := None, s_height := None\<rparr> else r)
                     (cc_scanned (c_store c))\<rparr>\<rparr>)
       \<and> list_all (\<lambda>r. \<not> above height (s_height r))
            (map (\<lambda>r. if above height (s_height r)
                            then r\<lparr>s_blockhash := None, s_height := None\<rparr> else r)
                     (cc_scanned (c_store c)))"
proof -
  have rewind: "updateBlocks_rewind prevHashOf c =
           Inr (Some (row # rows),
                c\<lparr>c_store := (c_store c)\<lparr>cc_scanned :=
                   map (\<lambda>r. if above height (s_height r)
                            then r\<lparr>s_blockhash := None, s_height := None\<rparr> else r)
                     (cc_scanned (c_store c))\<rparr>\<rparr>)"
  proof -
    have upd: "queryAsync ''update.ccScannedTxIds.makeUnconfirmed''
                 (update_ccScannedTxIds_makeUnconfirmed height) c =
               Inr ((), c\<lparr>c_store := (c_store c)\<lparr>cc_scanned :=
                   map (\<lambda>r. if above height (s_height r)
                            then r\<lparr>s_blockhash := None, s_height := None\<rparr> else r)
                     (cc_scanned (c_store c))\<rparr>\<rparr>)"
      using ok by (simp add: queryAsync_def update_ccScannedTxIds_makeUnconfirmed_def)
    show ?thesis
      using differ reorg
      by (simp add: updateBlocks_rewind_def andThen_def latest tip point upd resolve_def)
  qed
  have all: "list_all (\<lambda>r. \<not> above height (s_height r))
            (map (\<lambda>r. if above height (s_height r)
                            then r\<lparr>s_blockhash := None, s_height := None\<rparr> else r)
                     (cc_scanned (c_store c)))"
    by (induction "cc_scanned (c_store c)") (auto simp: list_all_iff above_def)
  show ?thesis
    using all by (simp add: rewind updateBlocks_body_def andThen_def)
qed


theorem updateBlocks_reorg_marks_unconfirmed_witness:
  "queryAsync ''select.ccScannedTxIds.latestBlock'' select_ccScannedTxIds_latestBlock
     \<lparr>c_id = 1, c_store =
       \<lparr>cc_blocks = [\<lparr>b_height = 3, b_hash = ''h3'', b_header = ''h2'', b_txids = []\<rparr>,
                     \<lparr>b_height = 4, b_hash = ''n4'', b_header = ''h3'', b_txids = []\<rparr>],
        cc_transactions = [],
        cc_scanned = [\<lparr>s_txid = ''t3'', s_blockhash = Some ''h3'', s_height = Some 3\<rparr>,
                      \<lparr>s_txid = ''t4'', s_blockhash = Some ''h4'', s_height = Some 4\<rparr>,
                      \<lparr>s_txid = ''t5'', s_blockhash = Some ''h5'', s_height = Some 5\<rparr>],
        cc_definitions = [], cc_calls = []\<rparr>,
      c_sent = [], c_fault = \<lambda>q. False\<rparr>
   = Inr ([(Some ''h5'', 5)],
     \<lparr>c_id = 1, c_store =
       \<lparr>cc_blocks = [\<lparr>b_height = 3, b_hash = ''h3'', b_header = ''h2'', b_txids = []\<rparr>,
                     \<lparr>b_height = 4, b_hash = ''n4'', b_header = ''h3'', b_txids = []\<rparr>],
        cc_transactions = [],
        cc_scanned = [\<lparr>s_txid = ''t3'', s_blockhash = Some ''h3'', s_height = Some 3\<rparr>,
                      \<lparr>s_txid = ''t4'', s_blockhash = Some ''h4'', s_height = Some 4\<rparr>,
                      \<lparr>s_txid = ''t5'', s_blockhash = Some ''h5'', s_height = Some 5\<rparr>],
        cc_definitions = [], cc_calls = []\<rparr>,
      c_sent = [], c_fault = \<lambda>q. False\<rparr>)
   \<and> queryAsync ''select.blocks.latest'' select_cc_blocks_latest
     \<lparr>c_id = 1, c_store =
       \<lparr>cc_blocks = [\<lparr>b_height = 3, b_hash = ''h3'', b_header = ''h2'', b_txids = []\<rparr>,
                     \<lparr>b_height = 4, b_hash = ''n4'', b_header = ''h3'', b_txids = []\<rparr>],
        cc_transactions = [],
        cc_scanned = [\<lparr>s_txid = ''t3'', s_blockhash = Some ''h3'', s_height = Some 3\<rparr>,
                      \<lparr>s_txid = ''t4'', s_blockhash = Some ''h4'', s_height = Some 4\<rparr>,
                      \<lparr>s_txid = ''t5'', s_blockhash = Some ''h5'', s_height = Some 5\<rparr>],
        cc_definitions = [], cc_calls = []\<rparr>,
      c_sent = [], c_fault = \<lambda>q. False\<rparr>
   = Inr ([\<lparr>b_height = 4, b_hash = ''n4'', b_header = ''h3'', b_txids = []\<rparr>],
     \<lparr>c_id = 1, c_store =
       \<lparr>cc_blocks = [\<lparr>b_height = 3, b_hash = ''h3'', b_header = ''h2'', b_txids = []\<rparr>,
                     \<lparr>b_height = 4, b_hash = ''n4'', b_header = ''h3'', b_txids = []\<rparr>],
        cc_transactions = [],
        cc_scanned = [\<lparr>s_txid = ''t3'', s_blockhash = Some ''h3'', s_height = Some 3\<rparr>,
                      \<lparr>s_txid = ''t4'', s_blockhash = Some ''h4'', s_height = Some 4\<rparr>,
                      \<lparr>s_txid = ''t5'', s_blockhash = Some ''h5'', s_height = Some 5\<rparr>],
        cc_definitions = [], cc_calls = []\<rparr>,
      c_sent = [], c_fault = \<lambda>q. False\<rparr>)
   \<and> rollbackPoint (\<lambda>header. header) ''h5'' 5 \<lparr>b_height = 4, b_hash = ''n4'', b_header = ''h3'', b_txids = []\<rparr>
     \<lparr>c_id = 1, c_store =
       \<lparr>cc_blocks = [\<lparr>b_height = 3, b_hash = ''h3'', b_header = ''h2'', b_txids = []\<rparr>,
                     \<lparr>b_height = 4, b_hash = ''n4'', b_header = ''h3'', b_txids = []\<rparr>],
        cc_transactions = [],
        cc_scanned = [\<lparr>s_txid = ''t3'', s_blockhash = Some ''h3'', s_height = Some 3\<rparr>,
                      \<lparr>s_txid = ''t4'', s_blockhash = Some ''h4'', s_height = Some 4\<rparr>,
                      \<lparr>s_txid = ''t5'', s_blockhash = Some ''h5'', s_height = Some 5\<rparr>],
        cc_definitions = [], cc_calls = []\<rparr>,
      c_sent = [], c_fault = \<lambda>q. False\<rparr>
   = Inr ((''h3'', 3, [\<lparr>b_height = 4, b_hash = ''n4'', b_header = ''h3'', b_txids = []\<rparr>]),
     \<lparr>c_id = 1, c_store =
       \<lparr>cc_blocks = [\<lparr>b_height = 3, b_hash = ''h3'', b_header = ''h2'', b_txids = []\<rparr>,
                     \<lparr>b_height = 4, b_hash = ''n4'', b_header = ''h3'', b_txids = []\<rparr>],
        cc_transactions = [],
        cc_scanned = [\<lparr>s_txid = ''t3'', s_blockhash = Some ''h3'', s_height = Some 3\<rparr>,
                      \<lparr>s_txid = ''t4'', s_blockhash = Some ''h4'', s_height = Some 4\<rparr>,
                      \<lparr>s_txid = ''t5'', s_blockhash = Some ''h5'', s_height = Some 5\<rparr>],
        cc_definitions = [], cc_calls = []\<rparr>,
      c_sent = [], c_fault = \<lambda>q. False\<rparr>)
   \<and> updateBlocks_rewind (\<lambda>header. header)
     \<lparr>c_id = 1, c_store =
       \<lparr>cc_blocks = [\<lparr>b_height = 3, b_hash = ''h3'', b_header = ''h2'', b_txids = []\<rparr>,
                     \<lparr>b_height = 4, b_hash = ''n4'', b_header = ''h3'', b_txids = []\<rparr>],
        cc_transactions = [],
        cc_scanned = [\<lparr>s_txid = ''t3'', s_blockhash = Some ''h3'', s_height = Some 3\<rparr>,
                      \<lparr>s_txid = ''t4'', s_blockhash = Some ''h4'', s_height = Some 4\<rparr>,
                      \<lparr>s_txid = ''t5'', s_blockhash = Some ''h5'', s_height = Some 5\<rparr>],
        cc_definitions = [], cc_calls = []\<rparr>,
      c_sent = [], c_fault = \<lambda>q. False\<rparr>
   = Inr (Some [\<lparr>b_height = 4, b_hash = ''n4'', b_header = ''h3'', b_txids = []\<rparr>],
     \<lparr>c_id = 1, c_store =
       \<lparr>cc_blocks = [\<lparr>b_height = 3, b_hash = ''h3'', b_header = ''h2'', b_txids = []\<rparr>,
                     \<lparr>b_height = 4, b_hash = ''n4'', b_header = ''h3'', b_txids = []\<rparr>],
        cc_transactions = [],
        cc_scanned = [\<lparr>s_txid = ''t3'', s_blockhash = Some ''h3'', s_height = Some 3\<rparr>,
                      \<lparr>s_txid = ''t4'', s_blockhash = None, s_height = None\<rparr>,
                      \<lparr>s_txid = ''t5'', s_blockhash = None, s_height = None\<rparr>],
        cc_definitions = [], cc_calls = []\<rparr>,
      c_sent = [], c_fault = \<lambda>q. False\<rparr>)"
proof -
  let ?c = "\<lparr>c_id = 1, c_store =
       \<lparr>cc_blocks = [\<lparr>b_height = 3, b_hash = ''h3'', b_header = ''h2'', b_txids = []\<rparr>,
                     \<lparr>b_height = 4, b_hash = ''n4'', b_header = ''h3'', b_txids = []\<rparr>],
        cc_transactions = [],
        cc_scanned = [\<lparr>s_txid = ''t3'', s_blockhash = Some ''h3'', s_height = Some 3\<rparr>,
                      \<lparr>s_txid = ''t4'', s_blockhash = Some ''h4'', s_height = Some 4\<rparr>,
                      \<lparr>s_txid = ''t5'', s_blockhash = Some ''h5'', s_height = Some 5\<rparr>],
        cc_definitions = [], cc_calls = []\<rparr>,
      c_sent = [], c_fault = \<lambda>q. False\<rparr>"
  have latest: "queryAsync ''select.ccScannedTxIds.latestBlock'' select_ccScannedTxIds_latestBlock ?c
      = Inr ((Some ''h5'', 5) # [], ?c)"
    by (simp add: queryAsync_def select_ccScannedTxIds_latestBlock_def scanned_blocks_def)
  have tip: "queryAsync ''select.blocks.latest'' select_cc_blocks_latest ?c
      = Inr (\<lparr>b_height = 4, b_hash = ''n4'', b_header = ''h3'', b_txids = []\<rparr> # [], ?c)"
    by (simp add: queryAsync_def select_cc_blocks_latest_def)
  have point: "rollbackPoint (\<lambda>header. header) ''h5'' 5 \<lparr>b_height = 4, b_hash = ''n4'', b_header = ''h3'', b_txids = []\<rparr> ?c
      = Inr ((''h3'', 3, \<lparr>b_height = 4, b_hash = ''n4'', b_header = ''h3'', b_txids = []\<rparr> # []), ?c)"
    apply (simp add: rollbackPoint_def andThen_def queryAsync_def
        select_ccScannedTxIds_blockHash_def)
    apply (subst walkBack.simps)
    apply (simp add: queryAsync_def select_blocks_txIdsByHeight_def)
    done
  show ?thesis
    using latest tip point
      updateBlocks_reorg_marks_unconfirmed [OF latest tip _ point, of "[]"]
    by (simp add: above_def)
qed

text \<open>
  C4, evaluated on the code. The parameter that \<open>removeTxs\<close> passes for the txid
  \<open>ab\<close> is the string \<open>epobc:ab:d+:0\<close>: in the template literal the backslash before
  \<open>d\<close> is dropped, so the pattern asks for a run of the letter \<open>d\<close>, not of digits.
  It does not match the identifier \<open>epobc:ab:0:0\<close>, which the pattern with the digit
  class matches. With the scanned txid \<open>ab\<close> and the definition 7 of identifier
  \<open>epobc:ab:0:0\<close> in the store, \<open>removeTxs\<close> keeps the definition and calls
  \<open>removeColorValues\<close> instead; the scanned row is deleted.
\<close>

theorem removeTxs_epobc_pattern:
  "epobc_params ''ab'' = ''epobc:ab:d+:0''
   \<and> \<not> matches (epobc_params ''ab'') ''epobc:ab:0:0''
   \<and> matches (epobc_params ''ab'') ''epobc:ab:ddd:0''
   \<and> matches (''epobc:ab:'' @ CHR 0x5C # ''d+:0'') ''epobc:ab:0:0''
   \<and> removeTxs 1 (\<lambda>q. False) [''epobc''] [''ab'']
        \<lparr>cc_blocks = [], cc_transactions = [],
         cc_scanned = [\<lparr>s_txid = ''ab'', s_blockhash = None, s_height = None\<rparr>],
         cc_definitions = [(7, ''epobc:ab:0:0'')], cc_calls = []\<rparr>
       = \<lparr>cc_blocks = [], cc_transactions = [], cc_scanned = [],
          cc_definitions = [(7, ''epobc:ab:0:0'')],
          cc_calls = [RemoveColorValues ''ab'' ''epobc'']\<rparr>"
  by code_simp

end
